(* ===== verification/Prelude.thy ===== *)
theory Prelude
  imports Main "HOL-Library.AList" "HOL-Library.Sublist"
begin

text \<open>
  Shared vocabulary of the development: the Python values the package manipulates
  (strings, CSV rows, the bundled data files, exceptions) and the Python \<open>str\<close>
  methods the code calls (\<open>lower\<close>, \<open>upper\<close>, \<open>isalpha\<close>, \<open>strip\<close>,
  \<open>replace\<close>, \<open>startswith\<close>, \<open>endswith\<close>, \<open>in\<close>), with the generic lemmas
  the component theories share.

  A Python \<open>str\<close> is a sequence of code points; the model's \<open>string\<close> is a list
  of \<open>char\<close>, the 256 code points U+0000..U+00FF (Latin-1). \<open>lower\<close>,
  \<open>isalpha\<close> and \<open>isspace\<close> are written out exactly on that range; \<open>upper\<close>
  is written out on ASCII, the only letters the code ever upper-cases (its argument
  is always the output of \<open>_normalize\<close>, which keeps \<open>[a-z0-9]\<close> only).
\<close>

named_theorems py_str_simps "evaluation rules of the modelled Python str methods"

section \<open>Python values: exceptions, CSV rows, the package's data files\<close>

text \<open>
  Exceptions are values. \<open>KeyError\<close> and \<open>ValueError\<close> carry the message the
  code formats; \<open>FileNotFoundError\<close> carries the path that was opened.
\<close>

datatype py_error =
    ValueError string
  | KeyError string
  | FileNotFoundError string

text \<open>
  A row of \<open>csv.DictReader\<close> is a dict from column names to strings. A column the
  file lacks and a short row's missing cell (\<open>None\<close> in Python) are both \<open>None\<close>
  here: \<open>row.get(k)\<close> is \<open>r k\<close>.
\<close>

type_synonym row = "string \<rightharpoonup> string"

text \<open>
  The files bundled in the package, by their path relative to the package directory,
  already parsed by \<open>csv.DictReader\<close>. A path the package does not ship is
  \<open>None\<close>: opening it raises \<open>FileNotFoundError\<close>.
\<close>

type_synonym data_files = "string \<rightharpoonup> row list"

text \<open>Python's truth value of an optional string (\<open>if ticker:\<close>).\<close>

fun py_truthy :: "string option \<Rightarrow> bool" where
  "py_truthy None = False"
| "py_truthy (Some s) = (s \<noteq> [])"

text \<open>\<open>row[k]\<close>: a missing column raises \<open>KeyError\<close>.\<close>

definition row_index :: "row \<Rightarrow> string \<Rightarrow> py_error + string" where
  "row_index r k = (case r k of None \<Rightarrow> Inl (KeyError k) | Some v \<Rightarrow> Inr v)"

text \<open>
  \<open>row[k]\<close> on a row already known to have a non-empty \<open>k\<close> (the code filters
  the rows first): the string itself, and \<open>[]\<close> where the row has none.
\<close>

definition row_str :: "row \<Rightarrow> string \<Rightarrow> string" where
  "row_str r k = (case r k of None \<Rightarrow> [] | Some v \<Rightarrow> v)"

text \<open>Sequencing of two steps that may raise: the first exception propagates.\<close>

definition err_bind :: "py_error + 'a \<Rightarrow> ('a \<Rightarrow> py_error + 'b) \<Rightarrow> py_error + 'b" where
  "err_bind m f = (case m of Inl e \<Rightarrow> Inl e | Inr a \<Rightarrow> f a)"

section \<open>Python str methods on Latin-1 strings\<close>

definition py_isupper_char :: "char \<Rightarrow> bool" where
  "py_isupper_char c \<longleftrightarrow>
     (let n = of_char c :: nat in
      (65 \<le> n \<and> n \<le> 90) \<or> (192 \<le> n \<and> n \<le> 214) \<or> (216 \<le> n \<and> n \<le> 222))"

text \<open>\<open>str.lower\<close> per character: the upper-case Latin-1 letters move down by 32.\<close>

definition py_lower_char :: "char \<Rightarrow> char" where
  "py_lower_char c = (if py_isupper_char c then char_of (of_char c + (32::nat)) else c)"

definition py_lower :: "string \<Rightarrow> string" where
  "py_lower s = map py_lower_char s"

definition py_islower_ascii :: "char \<Rightarrow> bool" where
  "py_islower_ascii c \<longleftrightarrow> (let n = of_char c :: nat in 97 \<le> n \<and> n \<le> 122)"

text \<open>\<open>str.upper\<close> per character, on ASCII letters.\<close>

definition py_upper_char :: "char \<Rightarrow> char" where
  "py_upper_char c = (if py_islower_ascii c then char_of (of_char c - (32::nat)) else c)"

definition py_upper :: "string \<Rightarrow> string" where
  "py_upper s = map py_upper_char s"

text \<open>\<open>str.isalpha\<close>: non-empty and every character a letter (Latin-1 letters:
  A-Z, a-z, U+00AA, U+00B5, U+00BA, and U+00C0..U+00FF but for U+00D7 and U+00F7).\<close>

definition py_isalpha_char :: "char \<Rightarrow> bool" where
  "py_isalpha_char c \<longleftrightarrow>
     (let n = of_char c :: nat in
      (65 \<le> n \<and> n \<le> 90) \<or> (97 \<le> n \<and> n \<le> 122) \<or> n = 170 \<or> n = 181 \<or> n = 186
      \<or> (192 \<le> n \<and> n \<noteq> 215 \<and> n \<noteq> 247))"

definition py_isalpha :: "string \<Rightarrow> bool" where
  "py_isalpha s \<longleftrightarrow> s \<noteq> [] \<and> list_all py_isalpha_char s"

text \<open>\<open>str.isspace\<close> per character (Latin-1: \<open>\t \n \v \f \r\<close>, the four
  separators U+001C..U+001F, space, NEL and NBSP), and \<open>str.strip()\<close>.\<close>

definition py_isspace_char :: "char \<Rightarrow> bool" where
  "py_isspace_char c \<longleftrightarrow>
     (let n = of_char c :: nat in
      (9 \<le> n \<and> n \<le> 13) \<or> (28 \<le> n \<and> n \<le> 32) \<or> n = 133 \<or> n = 160)"

definition py_strip :: "string \<Rightarrow> string" where
  "py_strip s = rev (dropWhile py_isspace_char (rev (dropWhile py_isspace_char s)))"

text \<open>
  \<open>s.replace(old, new)\<close>: every non-overlapping occurrence of \<open>old\<close>, scanning
  from the left, is replaced by \<open>new\<close>. An empty \<open>old\<close> matches before every
  character and at the end, as in CPython.
\<close>

function py_replace :: "string \<Rightarrow> string \<Rightarrow> string \<Rightarrow> string" where
  "py_replace [] new s = new @ concat (map (\<lambda>c. c # new) s)"
| "py_replace (a # as) new [] = []"
| "py_replace (a # as) new (c # cs) =
     (if prefix (a # as) (c # cs)
      then new @ py_replace (a # as) new (drop (length as) cs)
      else c # py_replace (a # as) new cs)"
  by pat_completeness auto
termination
  by (relation "measure (\<lambda>(old, new, s). length s)") auto

text \<open>
  \<open>s.startswith(p)\<close>, \<open>s.endswith(p)\<close> and \<open>p in s\<close> are the library's
  \<^const>\<open>prefix\<close>, \<^const>\<open>suffix\<close> and \<^const>\<open>sublist\<close> with the arguments
  swapped; the model writes them so.
\<close>

text \<open>Evaluation of the str methods on literals, for \<open>simp add: py_str_simps\<close>.\<close>

lemmas py_str_eval [py_str_simps] =
  char_of_def bit_0 py_lower_def py_lower_char_def py_isupper_char_def py_upper_def
  py_upper_char_def py_islower_ascii_def py_isalpha_def py_isalpha_char_def
  py_isspace_char_def py_strip_def row_str_def row_index_def suffix_to_prefix sublist_code(3) Let_def

section \<open>Lemmas on the str methods\<close>

lemma py_truthy_iff [simp]: "py_truthy v \<longleftrightarrow> (\<exists>s. v = Some s \<and> s \<noteq> [])"
  by (cases v) auto

lemma row_str_Some [simp]: "r k = Some v \<Longrightarrow> row_str r k = v"
  by (simp add: row_str_def)

lemma row_index_Some [simp]: "r k = Some v \<Longrightarrow> row_index r k = Inr v"
  by (simp add: row_index_def)

lemma err_bind_simps [simp]:
  "err_bind (Inl e) f = Inl e"
  "err_bind (Inr a) f = f a"
  by (simp_all add: err_bind_def)

lemma err_bind_Inr_iff:
  "err_bind m f = Inr b \<longleftrightarrow> (\<exists>a. m = Inr a \<and> f a = Inr b)"
  by (cases m) auto

lemma of_char_py_lower_char:
  "of_char (py_lower_char c) =
     (if py_isupper_char c then of_char c + 32 else (of_char c :: nat))"
proof -
  have "of_char c < (256::nat)" by (rule nat_of_char_less_256)
  then show ?thesis
    by (auto simp: py_lower_char_def py_isupper_char_def Let_def)
qed

lemma py_lower_char_idem [simp]: "py_lower_char (py_lower_char c) = py_lower_char c"
  by (auto simp: py_lower_char_def of_char_py_lower_char py_isupper_char_def Let_def)

lemma py_lower_char_upper [simp]: "py_lower_char (py_upper_char c) = py_lower_char c"
proof (cases "py_islower_ascii c")
  case True
  then have n: "97 \<le> (of_char c :: nat)" "(of_char c :: nat) \<le> 122"
    by (simp_all add: py_islower_ascii_def Let_def)
  then have up: "of_char (py_upper_char c) = (of_char c - 32 :: nat)"
    using True by (simp add: py_upper_char_def)
  have "65 \<le> (of_char c - 32 :: nat) \<and> (of_char c - 32 :: nat) \<le> 90"
    using n by arith
  then have "py_isupper_char (py_upper_char c)"
    by (simp add: py_isupper_char_def up Let_def)
  moreover have "\<not> py_isupper_char c"
    using n by (simp add: py_isupper_char_def Let_def)
  moreover have "char_of (of_char (py_upper_char c) + (32::nat)) = c"
    using n by (simp add: up)
  ultimately show ?thesis by (simp add: py_lower_char_def)
next
  case False
  then show ?thesis by (simp add: py_upper_char_def)
qed

lemma py_lower_idem [simp]: "py_lower (py_lower s) = py_lower s"
  by (simp add: py_lower_def)

lemma py_lower_upper [simp]: "py_lower (py_upper s) = py_lower s"
  by (simp add: py_lower_def py_upper_def)

lemma length_py_lower [simp]: "length (py_lower s) = length s"
  by (simp add: py_lower_def)

lemma length_py_upper [simp]: "length (py_upper s) = length s"
  by (simp add: py_upper_def)

lemma py_lower_append [simp]: "py_lower (xs @ ys) = py_lower xs @ py_lower ys"
  by (simp add: py_lower_def)

text \<open>Replacing a one-character pattern is a substitution character by character.\<close>

lemma py_replace_single:
  "py_replace [a] new s = concat (map (\<lambda>c. if c = a then new else [c]) s)"
  by (induction s) auto

lemma py_replace_del_single [py_str_simps]:
  "py_replace [a] [] s = filter (\<lambda>c. c \<noteq> a) s"
  by (induction s) auto

text \<open>A pattern that does not occur leaves the string unchanged.\<close>

lemma py_replace_absent:
  "old \<noteq> [] \<Longrightarrow> \<not> sublist old s \<Longrightarrow> py_replace old new s = s"
proof (induction s)
  case Nil
  then show ?case by (cases old) auto
next
  case (Cons c cs)
  obtain a as where old: "old = a # as" using Cons.prems(1) by (cases old) auto
  have "\<not> prefix old (c # cs)" using Cons.prems(2) by (auto simp: sublist_Cons_right)
  moreover have "\<not> sublist old cs" using Cons.prems(2) by (auto simp: sublist_Cons_right)
  ultimately show ?case using Cons.IH Cons.prems(1) old by auto
qed

lemma long_list_cases:
  assumes "1 < length xs"
  obtains a b rest where "xs = a # b # rest"
  using assms by (cases xs rule: remdups_adj.cases) auto

lemma prefix_imp_sublist_py [intro]: "prefix p s \<Longrightarrow> sublist p s"
  by (auto simp: prefix_def sublist_def)

end
