(* ===== verification/Normalize.thy ===== *)
theory Normalize
  imports Prelude
begin

text \<open>
  The Normalizer: the two \<open>_normalize\<close> functions of the package.
  \<^item> \<^term>\<open>strict_normalize\<close> is \<open>_normalize\<close> of
    \<open>src/build/lib/market_tickers/core.py\<close>: lower-case, then delete every
    character outside \<open>[a-z0-9]\<close> (\<open>re.sub(r"[^a-z0-9]", "", text.lower())\<close>);
  \<^item> \<^term>\<open>lenient_normalize\<close> is \<open>_normalize\<close> of
    \<open>src/market_tickers/core.py\<close>: lower-case, \<open>&\<close> becomes \<open>and\<close>, then
    hyphens and spaces are deleted; other punctuation stays.
  The lemmas show what characters each returns, that the strict one ignores letter
  case and surrounding whitespace, and where the two disagree.
\<close>

section \<open>Definitions\<close>

text \<open>The character class \<open>[a-z0-9]\<close> of the regular expression.\<close>

definition is_norm_char :: "char \<Rightarrow> bool" where
  "is_norm_char c \<longleftrightarrow> (let n = of_char c :: nat in (97 \<le> n \<and> n \<le> 122) \<or> (48 \<le> n \<and> n \<le> 57))"

definition strict_normalize :: "string \<Rightarrow> string" where
  "strict_normalize text = filter is_norm_char (py_lower text)"

definition lenient_normalize :: "string \<Rightarrow> string" where
  "lenient_normalize text =
     py_replace '' '' '''' (py_replace ''-'' '''' (py_replace ''&'' ''and'' (py_lower text)))"

lemmas normalize_eval [py_str_simps] = strict_normalize_def is_norm_char_def lenient_normalize_def

section \<open>Lemmas\<close>

lemma is_norm_char_lower [simp]: "is_norm_char c \<Longrightarrow> py_lower_char c = c"
  by (auto simp: is_norm_char_def py_lower_char_def py_isupper_char_def Let_def)

lemma is_norm_char_not_space: "py_isspace_char c \<Longrightarrow> \<not> is_norm_char (py_lower_char c)"
  by (auto simp: is_norm_char_def py_isspace_char_def of_char_py_lower_char
                 py_isupper_char_def Let_def)

lemma strict_normalize_append [simp]:
  "strict_normalize (xs @ ys) = strict_normalize xs @ strict_normalize ys"
  by (simp add: strict_normalize_def)

lemma strict_normalize_Nil [simp]: "strict_normalize [] = []"
  by (simp add: strict_normalize_def py_lower_def)

lemma strict_normalize_chars: "list_all is_norm_char (strict_normalize s)"
  by (simp add: strict_normalize_def list_all_iff)

lemma strict_normalize_fixpoint:
  "list_all is_norm_char s \<Longrightarrow> strict_normalize s = s"
proof -
  assume "list_all is_norm_char s"
  then have "map py_lower_char s = s" and "filter is_norm_char s = s"
    by (induction s) auto
  then show ?thesis by (simp add: strict_normalize_def py_lower_def)
qed

lemma strict_normalize_lower [simp]: "strict_normalize (py_lower s) = strict_normalize s"
  by (simp add: strict_normalize_def)

lemma strict_normalize_upper [simp]: "strict_normalize (py_upper s) = strict_normalize s"
proof -
  have "strict_normalize (py_upper s) = strict_normalize (py_lower (py_upper s))"
    by (simp only: strict_normalize_lower)
  also have "\<dots> = strict_normalize s" by simp
  finally show ?thesis .
qed

text \<open>Surrounding whitespace never survives the filter.\<close>

lemma filter_map_dropWhile:
  "(\<And>c. Q c \<Longrightarrow> \<not> P (f c)) \<Longrightarrow> filter P (map f (dropWhile Q s)) = filter P (map f s)"
  by (induction s) auto

lemma strict_normalize_strip [simp]: "strict_normalize (py_strip s) = strict_normalize s"
proof -
  have ws: "\<And>c. py_isspace_char c \<Longrightarrow> \<not> is_norm_char (py_lower_char c)"
    by (rule is_norm_char_not_space)
  have "strict_normalize (py_strip s) =
          rev (filter is_norm_char (map py_lower_char (dropWhile py_isspace_char
            (rev (dropWhile py_isspace_char s)))))"
    by (simp add: strict_normalize_def py_strip_def py_lower_def rev_filter rev_map)
  also have "\<dots> = rev (filter is_norm_char (map py_lower_char
                     (rev (dropWhile py_isspace_char s))))"
    using ws by (simp add: filter_map_dropWhile)
  also have "\<dots> = filter is_norm_char (map py_lower_char (dropWhile py_isspace_char s))"
    by (simp add: rev_filter rev_map)
  also have "\<dots> = strict_normalize s"
    using ws by (simp add: filter_map_dropWhile strict_normalize_def py_lower_def)
  finally show ?thesis .
qed

text \<open>The lenient policy as a character-by-character substitution.\<close>

lemma concat_map_subst_absent:
  "a \<notin> set s \<Longrightarrow> concat (map (\<lambda>c. if c = a then new else [c]) s) = s"
  by (induction s) auto

lemma lenient_normalize_eq:
  "lenient_normalize s =
     filter (\<lambda>c. c \<noteq> CHR '' '') (filter (\<lambda>c. c \<noteq> CHR ''-'')
       (concat (map (\<lambda>c. if c = CHR ''&'' then ''and'' else [c]) (py_lower s))))"
  by (simp only: lenient_normalize_def py_replace_del_single)
     (simp add: py_replace_single filter_filter)

lemma lower_and_chars: "x \<in> set ''and'' \<Longrightarrow> x \<noteq> CHR ''&'' \<and> py_lower_char x = x"
  by (auto simp: py_lower_char_def py_isupper_char_def)

lemma set_lenient_subst:
  assumes "x \<in> set (concat (map (\<lambda>c. if c = CHR ''&'' then ''and'' else [c]) (py_lower s)))"
  shows "x \<noteq> CHR ''&'' \<and> py_lower_char x = x"
proof -
  from assms obtain y where y: "y \<in> set s"
    and x: "x \<in> set (if py_lower_char y = CHR ''&'' then ''and'' else [py_lower_char y])"
    unfolding py_lower_def set_concat set_map image_image UN_iff by blast
  show ?thesis
  proof (cases "py_lower_char y = CHR ''&''")
    case True
    with x have "x \<in> set ''and''" by (simp only: if_True simp_thms)
    then show ?thesis by (rule lower_and_chars)
  next
    case False
    with x show ?thesis by simp
  qed
qed

lemma is_norm_char_punct: "is_norm_char c \<Longrightarrow> c \<noteq> CHR '' '' \<and> c \<noteq> CHR ''-''"
  by (auto simp: is_norm_char_def)

lemma py_lower_char_eq_amp: "py_lower_char c = CHR ''&'' \<longleftrightarrow> c = CHR ''&''"
proof (cases "py_isupper_char c")
  case True
  then have lo: "(of_char c :: nat) \<ge> 65" by (auto simp: py_isupper_char_def Let_def)
  then have "(of_char (py_lower_char c) :: nat) \<ge> 97"
    using True by (simp add: of_char_py_lower_char)
  with lo show ?thesis by (auto dest: arg_cong [where f = "of_char :: char \<Rightarrow> nat"])
next
  case False
  then show ?thesis by (simp add: py_lower_char_def)
qed

lemma py_lower_subst_amp:
  "py_lower (concat (map (\<lambda>c. if c = CHR ''&'' then ''and'' else [c]) s)) =
   concat (map (\<lambda>c. if c = CHR ''&'' then ''and'' else [c]) (py_lower s))"
proof (induction s)
  case Nil
  then show ?case by (simp add: py_lower_def)
next
  case (Cons c s)
  have "py_lower ''and'' = ''and''" by (simp add: py_str_simps)
  with Cons show ?case by (simp add: py_lower_def py_lower_char_eq_amp)
qed

lemma lenient_chars:
  "x \<in> set (lenient_normalize s) \<Longrightarrow>
     x \<noteq> CHR ''&'' \<and> py_lower_char x = x \<and> x \<noteq> CHR ''-'' \<and> x \<noteq> CHR '' ''"
proof -
  assume "x \<in> set (lenient_normalize s)"
  then have x: "x \<in> set (concat (map (\<lambda>c. if c = CHR ''&'' then ''and'' else [c]) (py_lower s)))"
    and sp: "x \<noteq> CHR '' ''" and hy: "x \<noteq> CHR ''-''"
    by (simp_all add: lenient_normalize_eq)
  from set_lenient_subst [OF x] sp hy show ?thesis by blast
qed

section \<open>Properties of the normalizers\<close>

text \<open>
  C23. The strict normalizer ignores letter case and surrounding whitespace:
  lower-casing or stripping the input gives the same key (\<open>"APPLE INC"\<close>,
  \<open>"apple inc"\<close> and \<open>" Apple Inc "\<close> compare equal). Python's \<open>lower\<close> and
  \<open>strip\<close> are modelled exactly on the character model; \<open>upper\<close> is not part of
  the statement, since on Latin-1 it can lengthen a string (U+00DF upper-cases to
  the two letters \<open>SS\<close>).
\<close>

theorem strict_normalize_case_blind:
  "strict_normalize (py_lower s) = strict_normalize s \<and>
   strict_normalize (py_strip s) = strict_normalize s"
  by simp

text \<open>
  C24. The two policies differ exactly in their treatment of \<open>&\<close>: applying the
  strict policy after the lenient one is the strict policy after replacing \<open>&\<close> by
  \<open>and\<close>; so \<open>"S&P 500"\<close> is \<open>sp500\<close> under one and \<open>sandp500\<close> under the other.
\<close>

theorem normalize_policies_relation:
  "strict_normalize (lenient_normalize s) = strict_normalize (py_replace ''&'' ''and'' s) \<and>
   strict_normalize ''S&P 500'' = ''sp500'' \<and> lenient_normalize ''S&P 500'' = ''sandp500''"
proof -
  let ?X = "concat (map (\<lambda>c. if c = CHR ''&'' then ''and'' else [c]) (py_lower s))"
  have low: "py_lower (lenient_normalize s) = lenient_normalize s"
    unfolding py_lower_def by (rule map_idI) (simp add: lenient_chars)
  have "strict_normalize (lenient_normalize s) =
        filter is_norm_char (filter (\<lambda>c. c \<noteq> CHR '' '') (filter (\<lambda>c. c \<noteq> CHR ''-'') ?X))"
    by (simp only: strict_normalize_def low) (simp only: lenient_normalize_eq)
  also have "\<dots> = filter is_norm_char ?X"
    unfolding filter_filter by (rule filter_cong) (auto dest: is_norm_char_punct)
  also have "\<dots> = strict_normalize (py_replace ''&'' ''and'' s)"
    by (simp add: strict_normalize_def py_replace_single py_lower_subst_amp)
  finally show ?thesis by (simp add: py_str_simps)
qed

end
