(* ===== verification/Matcher.thy ===== *)
theory Matcher
  imports Normalize
begin

text \<open>
  The Category Matcher: the part of \<open>get_ticker\<close>
  (\<open>src/build/lib/market_tickers/core.py\<close>, lines 79-133) that runs after the
  category's rows are loaded. \<^term>\<open>valid_rows\<close> keeps the rows with a name and a
  ticker; \<^term>\<open>match_rows\<close> is the exact, startswith and contains cascade with its
  two tie-breaks, written as the code's chain of \<open>if\<close>s and early returns.

  Beside it, \<^term>\<open>spec_match\<close> is the matcher's contract: a list of tiers, each with
  its candidates and what it does with several of them, run by a small interpreter
  (\<^term>\<open>run_tiers\<close>) over abstract records. The refinement lemma
  \<open>match_rows_refines\<close> shows the code computes exactly the contract's result.
\<close>

section \<open>The cascade as the code writes it\<close>

definition valid_rows :: "row list \<Rightarrow> row list" where
  "valid_rows rows = filter (\<lambda>r. py_truthy (r ''name'') \<and> py_truthy (r ''ticker'')) rows"

definition exact_matches :: "string \<Rightarrow> row list \<Rightarrow> row list" where
  "exact_matches norm_name rows =
     filter (\<lambda>r. norm_name = strict_normalize (row_str r ''name'')
               \<or> norm_name = strict_normalize (py_replace ''=x'' '''' (row_str r ''ticker''))) rows"

definition nse_rows :: "row list \<Rightarrow> row list" where
  "nse_rows rows = filter (\<lambda>r. suffix ''.NS'' (row_str r ''ticker'')) rows"

definition starts_matches :: "string \<Rightarrow> row list \<Rightarrow> row list" where
  "starts_matches norm_name rows =
     filter (\<lambda>r. prefix norm_name (strict_normalize (row_str r ''name''))) rows"

definition contains_matches :: "string \<Rightarrow> row list \<Rightarrow> row list" where
  "contains_matches norm_name rows =
     filter (\<lambda>r. sublist norm_name (strict_normalize (row_str r ''name''))) rows"

text \<open>The two messages of \<open>KeyError\<close> (\<open>0x27\<close> is the quote character).\<close>

definition ambiguous_msg :: "string \<Rightarrow> string" where
  "ambiguous_msg raw_name =
     [CHR 0x27] @ raw_name @ [CHR 0x27] @
     '' is ambiguous. Please use full company name (e.g. '' @
     [CHR 0x27] @ ''Reliance Industries'' @ [CHR 0x27] @ '').''"

definition not_found_msg :: "string \<Rightarrow> string" where
  "not_found_msg raw_name = ''Ticker not found for: '' @ raw_name"

definition match_rows :: "string \<Rightarrow> string \<Rightarrow> string option \<Rightarrow> row list \<Rightarrow> py_error + string" where
  "match_rows raw_name norm_name country valid =
     (let exact = exact_matches norm_name valid in
      if length exact = 1 then Inr (row_str (hd exact) ''ticker'')
      else if 1 < length exact then
        (let nse = nse_rows exact in
         if country = Some ''india'' \<and> length nse = 1 then Inr (row_str (hd nse) ''ticker'')
         else Inl (KeyError (ambiguous_msg raw_name)))
      else
      let starts = starts_matches norm_name valid in
      if length starts = 1 then Inr (row_str (hd starts) ''ticker'')
      else
      let contains = contains_matches norm_name valid in
      if length contains = 1 then Inr (row_str (hd contains) ''ticker'')
      else if 1 < length contains then
        (let nse = nse_rows contains in
         if country = Some ''india'' \<and> nse \<noteq> [] then Inr (row_str (hd nse) ''ticker'')
         else Inl (KeyError (ambiguous_msg raw_name)))
      else Inl (KeyError (not_found_msg raw_name)))"

section \<open>The matcher's contract\<close>

text \<open>A record of the contract: its display name and ticker.\<close>

record ticker_record =
  display_name :: string
  ticker :: string

definition abs_row :: "row \<Rightarrow> ticker_record" where
  "abs_row r = \<lparr>display_name = row_str r ''name'', ticker = row_str r ''ticker''\<rparr>"

definition eligible :: "ticker_record \<Rightarrow> bool" where
  "eligible x \<longleftrightarrow> display_name x \<noteq> [] \<and> ticker x \<noteq> []"

datatype match_result = NotFound | Unique string | Ambiguous "string list"

text \<open>
  What a tier does with several candidates: fall through to the next tier, or stop,
  after the India tie-break (strict: exactly one \<open>.NS\<close> candidate; lenient: the
  first one).
\<close>

datatype on_many = Fall_through | Strict_tie_break | Lenient_tie_break

fun tier_outcome :: "on_many \<Rightarrow> string option \<Rightarrow> string list \<Rightarrow> match_result option" where
  "tier_outcome p country [] = None"
| "tier_outcome p country [t] = Some (Unique t)"
| "tier_outcome Fall_through country ts = None"
| "tier_outcome Strict_tie_break country ts =
     (let ns = filter (suffix ''.NS'') ts in
      if country = Some ''india'' \<and> length ns = 1 then Some (Unique (hd ns)) else Some (Ambiguous ts))"
| "tier_outcome Lenient_tie_break country ts =
     (let ns = filter (suffix ''.NS'') ts in
      if country = Some ''india'' \<and> ns \<noteq> [] then Some (Unique (hd ns)) else Some (Ambiguous ts))"

fun run_tiers :: "string option \<Rightarrow> (on_many \<times> string list) list \<Rightarrow> match_result" where
  "run_tiers country [] = NotFound"
| "run_tiers country ((p, ts) # tiers) =
     (case tier_outcome p country ts of Some res \<Rightarrow> res | None \<Rightarrow> run_tiers country tiers)"

definition candidates :: "(ticker_record \<Rightarrow> bool) \<Rightarrow> ticker_record list \<Rightarrow> string list" where
  "candidates P xs = map ticker (filter P xs)"

definition spec_match :: "string \<Rightarrow> string option \<Rightarrow> ticker_record list \<Rightarrow> match_result" where
  "spec_match q country records =
     (let xs = filter eligible records in
      run_tiers country
        [(Strict_tie_break, candidates (\<lambda>x. strict_normalize (display_name x) = q
            \<or> strict_normalize (py_replace ''=x'' '''' (ticker x)) = q) xs),
         (Fall_through, candidates (\<lambda>x. prefix q (strict_normalize (display_name x))) xs),
         (Lenient_tie_break, candidates (\<lambda>x. sublist q (strict_normalize (display_name x))) xs)])"

text \<open>How the code reports each result.\<close>

fun report :: "string \<Rightarrow> match_result \<Rightarrow> py_error + string" where
  "report raw_name NotFound = Inl (KeyError (not_found_msg raw_name))"
| "report raw_name (Unique t) = Inr t"
| "report raw_name (Ambiguous ts) = Inl (KeyError (ambiguous_msg raw_name))"

section \<open>Lemmas\<close>

lemmas match_defs = exact_matches_def starts_matches_def contains_matches_def nse_rows_def

lemma valid_rows_abs: "map abs_row (valid_rows rows) = filter eligible (map abs_row rows)"
  by (induction rows) (auto simp: valid_rows_def abs_row_def eligible_def row_str_def
                           split: option.splits)

lemma candidates_abs:
  "candidates P (map abs_row rs) = map (\<lambda>r. row_str r ''ticker'') (filter (P \<circ> abs_row) rs)"
  by (induction rs) (auto simp: candidates_def abs_row_def)

text \<open>A startswith match is a contains match: the third tier sees at least the second's rows.\<close>

lemma starts_subset_contains: "set (starts_matches q rs) \<subseteq> set (contains_matches q rs)"
  by (auto simp: starts_matches_def contains_matches_def)

text \<open>The interpreter on the three tiers, unfolded into the code's chain of tests.\<close>

lemma run_tiers_report:
  fixes tk :: "row \<Rightarrow> string"
  shows
  "report raw (run_tiers c [(Strict_tie_break, map tk E), (Fall_through, map tk S),
                            (Lenient_tie_break, map tk C)]) =
   (if length E = 1 then Inr (tk (hd E))
    else if 1 < length E then
      (let nse = filter (\<lambda>r. suffix ''.NS'' (tk r)) E in
       if c = Some ''india'' \<and> length nse = 1 then Inr (tk (hd nse))
       else Inl (KeyError (ambiguous_msg raw)))
    else if length S = 1 then Inr (tk (hd S))
    else if length C = 1 then Inr (tk (hd C))
    else if 1 < length C then
      (let nse = filter (\<lambda>r. suffix ''.NS'' (tk r)) C in
       if c = Some ''india'' \<and> nse \<noteq> [] then Inr (tk (hd nse))
       else Inl (KeyError (ambiguous_msg raw)))
    else Inl (KeyError (not_found_msg raw)))"
  by (cases E rule: remdups_adj.cases; cases S rule: remdups_adj.cases;
      cases C rule: remdups_adj.cases)
     (auto simp: Let_def filter_map comp_def hd_map length_Suc_conv)

lemma spec_match_tiers:
  "spec_match q c (map abs_row rows) =
     run_tiers c [(Strict_tie_break, map (\<lambda>r. row_str r ''ticker'') (exact_matches q (valid_rows rows))),
                  (Fall_through, map (\<lambda>r. row_str r ''ticker'') (starts_matches q (valid_rows rows))),
                  (Lenient_tie_break, map (\<lambda>r. row_str r ''ticker'') (contains_matches q (valid_rows rows)))]"
  unfolding spec_match_def Let_def valid_rows_abs [symmetric] candidates_abs
  by (simp add: match_defs comp_def abs_row_def eq_commute)

text \<open>The branches of the cascade, one lemma each.\<close>

lemma match_rows_exact_one:
  "exact_matches q V = [r] \<Longrightarrow> match_rows raw q c V = Inr (row_str r ''ticker'')"
  by (simp add: match_rows_def)

lemma match_rows_exact_many:
  "1 < length (exact_matches q V) \<Longrightarrow>
   match_rows raw q c V =
     (if c = Some ''india'' \<and> length (nse_rows (exact_matches q V)) = 1
      then Inr (row_str (hd (nse_rows (exact_matches q V))) ''ticker'')
      else Inl (KeyError (ambiguous_msg raw)))"
  by (simp add: match_rows_def Let_def)

lemma match_rows_no_exact:
  "exact_matches q V = [] \<Longrightarrow> length (starts_matches q V) \<noteq> 1 \<Longrightarrow>
   match_rows raw q c V =
     (let contains = contains_matches q V in
      if length contains = 1 then Inr (row_str (hd contains) ''ticker'')
      else if 1 < length contains then
        (if c = Some ''india'' \<and> nse_rows contains \<noteq> []
         then Inr (row_str (hd (nse_rows contains)) ''ticker'')
         else Inl (KeyError (ambiguous_msg raw)))
      else Inl (KeyError (not_found_msg raw)))"
  by (simp add: match_rows_def Let_def)

lemma length_filter_mono:
  "(\<And>x. P x \<Longrightarrow> Q x) \<Longrightarrow> length (filter P xs) \<le> length (filter Q xs)"
  by (induction xs) auto

lemma length_starts_le_contains: "length (starts_matches q V) \<le> length (contains_matches q V)"
  unfolding starts_matches_def contains_matches_def
  by (rule length_filter_mono) auto

text \<open>Every ticker the cascade returns is the ticker of one of its rows.\<close>

lemma hd_filter_in_set: "filter P xs \<noteq> [] \<Longrightarrow> hd (filter P xs) \<in> set xs"
  using hd_in_set [of "filter P xs"] by auto

lemma hd_witness: "0 < length xs \<Longrightarrow> set xs \<subseteq> set V \<Longrightarrow> \<exists>r \<in> set V. f r = f (hd xs)"
proof -
  assume "0 < length xs" and sub: "set xs \<subseteq> set V"
  then have "hd xs \<in> set V" using hd_in_set [of xs] by auto
  then show ?thesis by blast
qed

lemma match_rows_from_rows:
  assumes "match_rows raw q c V = Inr t"
  shows "\<exists>r \<in> set V. row_str r ''ticker'' = t"
proof -
  have sets: "set (exact_matches q V) \<subseteq> set V" "set (starts_matches q V) \<subseteq> set V"
    "set (contains_matches q V) \<subseteq> set V"
    "set (nse_rows (exact_matches q V)) \<subseteq> set V"
    "set (nse_rows (contains_matches q V)) \<subseteq> set V"
    by (auto simp: match_defs)
  from assms show ?thesis
    unfolding match_rows_def Let_def
    by (auto split: if_splits intro!: hd_witness sets)
qed

text \<open>
  C5. Refinement of the matcher: on any rows of a category, the code's cascade
  (the valid rows, the exact tier with its strict India tie-break, the startswith tier
  that falls through on several matches, the contains tier with its lenient tie-break)
  returns exactly what the contract's tier interpreter returns on the abstract records,
  reported as the code reports it.
\<close>

theorem match_rows_refines:
  "match_rows raw q c (valid_rows rows) = report raw (spec_match q c (map abs_row rows))"
  by (simp only: spec_match_tiers run_tiers_report) (simp add: match_rows_def nse_rows_def Let_def)

end
