(* ===== verification/Examples.thy ===== *)
theory Examples
  imports Prelude
begin

text \<open>
  Concrete package data for the witnesses: the rows of the examples of the
  specification's testable properties (Apple Inc, the two Tata Motors listings, the
  two Reliance companies) and one ETF and one index row, as the bundled CSV files
  \<open>csv.DictReader\<close> would yield them.
\<close>

definition demo_row :: "string \<Rightarrow> string \<Rightarrow> row" where
  "demo_row name ticker = [''name'' \<mapsto> name, ''ticker'' \<mapsto> ticker]"

definition india_rows :: "row list" where
  "india_rows =
     [demo_row ''Tata Motors'' ''TATAMOTORS.NS'', demo_row ''Tata Motors'' ''TATAMTR.BO'',
      demo_row ''Reliance Industries'' ''RELIANCE.NS'', demo_row ''Reliance Power'' ''RPOWER.NS'']"

definition us_rows :: "row list" where
  "us_rows = [demo_row ''Apple Inc'' ''AAPL'']"

definition etf_rows :: "row list" where
  "etf_rows = [demo_row ''Tata Motors Index Fund'' ''TATAETF.NS'']"

definition index_rows :: "row list" where
  "index_rows = [demo_row ''Nifty Bank'' ''^NSEBANK'']"

definition demo_files :: data_files where
  "demo_files =
     [''data/stocks/stocks_india.csv'' \<mapsto> india_rows,
      ''data/stocks/stocks_us.csv'' \<mapsto> us_rows,
      ''data/etfs/etfs.csv'' \<mapsto> etf_rows,
      ''data/indices/indices.csv'' \<mapsto> index_rows]"

text \<open>
  The data layout of the source tree (\<open>data/india_stocks.csv\<close>, \<open>usa_stocks.csv\<close>
  and three index files), with the columns its \<open>core.py\<close> reads.
\<close>

definition legacy_stock :: "string \<Rightarrow> string \<Rightarrow> string \<Rightarrow> string \<Rightarrow> row" where
  "legacy_stock name symbol exchange default_index =
     [''name'' \<mapsto> name, ''symbol'' \<mapsto> symbol, ''exchange'' \<mapsto> exchange,
      ''default_index'' \<mapsto> default_index]"

definition legacy_files :: data_files where
  "legacy_files =
     [''data/india_stocks.csv'' \<mapsto>
        [legacy_stock ''Tata Motors'' ''TATAMOTORS'' ''NSE'' ''Nifty 50'',
         legacy_stock ''Tata Motors DVR'' ''TATAMTRDVR'' ''BSE'' ''Sensex''],
      ''data/usa_stocks.csv'' \<mapsto> [legacy_stock ''Nvidia'' ''NVDA'' ''NASDAQ'' ''S&P 500''],
      ''data/indices_india.csv'' \<mapsto>
        [demo_row ''Nifty 50'' ''^NSEI'', demo_row ''Sensex'' ''^BSESN''],
      ''data/indices_usa.csv'' \<mapsto> [demo_row ''S&P 500'' ''^GSPC''],
      ''data/indices_global.csv'' \<mapsto> []]"

lemmas demo_defs = demo_row_def india_rows_def us_rows_def etf_rows_def index_rows_def demo_files_def
  legacy_stock_def legacy_files_def

end
