(* ===== verification/Loaders.thy ===== *)
theory Loaders
  imports Prelude Examples
begin

text \<open>
  The Dataset Provider: the two \<open>loaders.py\<close> modules, over the package's bundled
  files \<^typ>\<open>data_files\<close> (a map from relative path to the rows
  \<open>csv.DictReader\<close> yields).
  \<^item> \<open>src/build/lib/market_tickers/loaders.py\<close>: \<^term>\<open>load_csv\<close> turns a
    missing file into no rows; \<^term>\<open>load_stocks\<close> merges the legacy and the new
    stock file of a country and deduplicates by ticker through a dict
    (\<^term>\<open>dedup_by_ticker\<close>, an association list updated with
    \<^const>\<open>AList.update\<close>, which is Python's \<open>d[k] = v\<close>: an existing key keeps
    its position and takes the new value, a new key goes to the end);
    \<^term>\<open>load_indices\<close>, \<^term>\<open>load_etfs\<close>, \<^term>\<open>load_currencies\<close> read one
    file each.
  \<^item> \<open>src/market_tickers/loaders.py\<close>: \<^term>\<open>load_csv_strict\<close> raises
    \<open>FileNotFoundError\<close> on a missing file; \<^term>\<open>load_indices_all\<close> concatenates
    three index files and stops at the first missing one.
  The lemmas show the dict invariant of the deduplication (distinct keys, each key
  the ticker of its row), its contract (last write wins, first-occurrence order) and
  the error behaviour of both loaders.
\<close>

section \<open>The loaders of the package build (build/lib/market\_tickers/loaders.py)\<close>

text \<open>\<open>_load_csv\<close>: \<open>FileNotFoundError\<close> is caught and gives \<open>[]\<close>.\<close>

definition load_csv :: "data_files \<Rightarrow> string \<Rightarrow> row list" where
  "load_csv fs relative_path = (case fs relative_path of None \<Rightarrow> [] | Some rows \<Rightarrow> rows)"

text \<open>The country key: \<open>country.lower().replace(" ", "_")\<close>.\<close>

definition stock_country_key :: "string \<Rightarrow> string" where
  "stock_country_key country = py_replace '' '' ''_'' (py_lower country)"

text \<open>The rows of the old dataset, then of the new one (India and the US only).\<close>

definition stock_sources :: "data_files \<Rightarrow> string \<Rightarrow> row list" where
  "stock_sources fs country =
     load_csv fs (''data/stocks/stocks_'' @ country @ ''.csv'') @
     (if country = ''india'' then load_csv fs ''data/new_stocks/india_stocks.csv''
      else if country = ''united_states'' \<or> country = ''us''
      then load_csv fs ''data/new_stocks/us_stocks.csv''
      else [])"

text \<open>
  The deduplication loop: \<open>for row in rows: ticker = row.get("ticker");
  if ticker: deduped[ticker] = row\<close>, the dict as an association list.
\<close>

definition dedup_step :: "(string \<times> row) list \<Rightarrow> row \<Rightarrow> (string \<times> row) list" where
  "dedup_step d r =
     (case r ''ticker'' of None \<Rightarrow> d | Some t \<Rightarrow> if t \<noteq> [] then AList.update t r d else d)"

fun dedup_by_ticker :: "(string \<times> row) list \<Rightarrow> row list \<Rightarrow> (string \<times> row) list" where
  "dedup_by_ticker d [] = d"
| "dedup_by_ticker d (r # rs) = dedup_by_ticker (dedup_step d r) rs"

definition load_stocks :: "data_files \<Rightarrow> string \<Rightarrow> row list" where
  "load_stocks fs country =
     (let c = stock_country_key country
      in map snd (dedup_by_ticker [] (stock_sources fs c)))"

definition load_indices :: "data_files \<Rightarrow> row list" where
  "load_indices fs = load_csv fs ''data/indices/indices.csv''"

definition load_etfs :: "data_files \<Rightarrow> row list" where
  "load_etfs fs = load_csv fs ''data/etfs/etfs.csv''"

definition load_currencies :: "data_files \<Rightarrow> row list" where
  "load_currencies fs = load_csv fs ''data/currencies/currencies.csv''"

section \<open>The loaders of the source tree (market\_tickers/loaders.py)\<close>

text \<open>\<open>_load_csv(filename)\<close> opens \<open>DATA_DIR/filename\<close>; a missing file raises.\<close>

definition load_csv_strict :: "data_files \<Rightarrow> string \<Rightarrow> py_error + row list" where
  "load_csv_strict fs filename =
     (case fs (''data/'' @ filename) of
        None \<Rightarrow> Inl (FileNotFoundError (''data/'' @ filename))
      | Some rows \<Rightarrow> Inr rows)"

definition load_india_stocks :: "data_files \<Rightarrow> py_error + row list" where
  "load_india_stocks fs = load_csv_strict fs ''india_stocks.csv''"

definition load_usa_stocks :: "data_files \<Rightarrow> py_error + row list" where
  "load_usa_stocks fs = load_csv_strict fs ''usa_stocks.csv''"

text \<open>The loop \<open>for file in [...]: indices.extend(_load_csv(file))\<close>.\<close>

fun load_all_strict :: "data_files \<Rightarrow> string list \<Rightarrow> py_error + row list" where
  "load_all_strict fs [] = Inr []"
| "load_all_strict fs (f # files) =
     err_bind (load_csv_strict fs f) (\<lambda>rows.
     err_bind (load_all_strict fs files) (\<lambda>rest. Inr (rows @ rest)))"

definition load_indices_all :: "data_files \<Rightarrow> py_error + row list" where
  "load_indices_all fs =
     load_all_strict fs [''indices_india.csv'', ''indices_usa.csv'', ''indices_global.csv'']"

section \<open>The deduplication dict: its contract\<close>

text \<open>The dict invariant: keys are distinct and each is the ticker of its row.\<close>

definition dict_inv :: "(string \<times> row) list \<Rightarrow> bool" where
  "dict_inv d \<longleftrightarrow> distinct (map fst d) \<and> (\<forall>(t, r) \<in> set d. r ''ticker'' = Some t \<and> t \<noteq> [])"

text \<open>The dict seen as a map: the rows with a non-empty ticker, the later one winning.\<close>

definition ticker_map_step :: "(string \<rightharpoonup> row) \<Rightarrow> row \<Rightarrow> (string \<rightharpoonup> row)" where
  "ticker_map_step m r = (case r ''ticker'' of None \<Rightarrow> m | Some t \<Rightarrow> if t \<noteq> [] then m(t \<mapsto> r) else m)"

text \<open>The keys: those of the start dict, then each new non-empty ticker in order.\<close>

definition new_tickers :: "row list \<Rightarrow> string list" where
  "new_tickers rs = concat (map (\<lambda>r. case r ''ticker'' of None \<Rightarrow> [] | Some t \<Rightarrow> if t \<noteq> [] then [t] else []) rs)"

section \<open>The deduplication dict: lemmas\<close>

lemma dedup_by_ticker_append:
  "dedup_by_ticker d (xs @ ys) = dedup_by_ticker (dedup_by_ticker d xs) ys"
  by (induction xs arbitrary: d) simp_all

lemma set_update_subset: "set (AList.update k v d) \<subseteq> insert (k, v) (set d)"
  by (induction d) auto

lemma dict_inv_step: "dict_inv d \<Longrightarrow> dict_inv (dedup_step d r)"
  using set_update_subset [of _ r d]
  by (fastforce simp: dict_inv_def dedup_step_def distinct_update split: option.splits)

lemma dict_inv_dedup: "dict_inv d \<Longrightarrow> dict_inv (dedup_by_ticker d rs)"
  by (induction rs arbitrary: d) (simp_all add: dict_inv_step)

lemma map_of_dedup_step: "map_of (dedup_step d r) = ticker_map_step (map_of d) r"
  by (simp add: dedup_step_def ticker_map_step_def update_conv' split: option.splits)

lemma map_of_dedup:
  "map_of (dedup_by_ticker d rs) = fold (\<lambda>r m. ticker_map_step m r) rs (map_of d)"
  by (induction rs arbitrary: d) (simp_all add: map_of_dedup_step)

lemma map_fst_update: "map fst (AList.update k v d) = (if k \<in> set (map fst d) then map fst d else map fst d @ [k])"
  by (induction d) auto

lemma remdups_drop_mid: "t \<in> set bs \<Longrightarrow> remdups (as @ t # bs) = remdups (as @ bs)"
  by (induction as) auto

text \<open>
  Python's dict keeps the first insertion position of a key, so the keys are the
  distinct tickers in order of first occurrence; \<^const>\<open>remdups\<close> keeps last
  occurrences, hence the reversals.
\<close>

lemma keys_dedup_step:
  "rev (remdups (rev (map fst (dedup_step d r) @ new_tickers rs))) =
   rev (remdups (rev (map fst d @ new_tickers (r # rs))))"
  by (auto simp: dedup_step_def new_tickers_def map_fst_update remdups_drop_mid
           split: option.splits)

lemma keys_dedup:
  "distinct (map fst d) \<Longrightarrow>
     map fst (dedup_by_ticker d rs) = rev (remdups (rev (map fst d @ new_tickers rs)))"
proof (induction rs arbitrary: d)
  case Nil
  then show ?case by (simp add: new_tickers_def distinct_remdups_id)
next
  case (Cons r rs)
  have "distinct (map fst (dedup_step d r))"
    using Cons.prems by (simp add: dedup_step_def distinct_update split: option.splits)
  with Cons.IH keys_dedup_step show ?case by simp
qed

lemma dict_inv_tickers:
  "dict_inv d \<Longrightarrow> map (\<lambda>r. r ''ticker'') (map snd d) = map (Some \<circ> fst) d"
  by (induction d) (auto simp: dict_inv_def)

lemma dict_inv_Nil [simp]: "dict_inv []"
  by (simp add: dict_inv_def)

lemma find_ticker_dict:
  "dict_inv d \<Longrightarrow> find (\<lambda>r. r ''ticker'' = Some t) (map snd d) = map_of d t"
  by (induction d) (auto simp: dict_inv_def)

lemma fold_ticker_map_step:
  "fold (\<lambda>r m. ticker_map_step m r) rs m t =
     (if t = [] then m t
      else case find (\<lambda>r. r ''ticker'' = Some t) (rev rs) of None \<Rightarrow> m t | Some r \<Rightarrow> Some r)"
  by (induction rs rule: rev_induct) (auto simp: ticker_map_step_def split: option.splits)

lemma load_stocks_dedup:
  "load_stocks fs country = map snd (dedup_by_ticker [] (stock_sources fs (stock_country_key country)))"
  by (simp add: load_stocks_def)

section \<open>Properties of the loaders\<close>

text \<open>
  C19. The dict invariant of \<open>load_stocks\<close>: every returned row has a non-empty
  ticker and no two returned rows share a ticker, whatever the two source files
  contain.
\<close>

theorem load_stocks_distinct_tickers:
  "distinct (map (\<lambda>r. r ''ticker'') (load_stocks fs country)) \<and>
   (\<forall>r \<in> set (load_stocks fs country). py_truthy (r ''ticker''))"
proof -
  let ?d = "dedup_by_ticker [] (stock_sources fs (stock_country_key country))"
  have inv: "dict_inv ?d" by (rule dict_inv_dedup) simp
  then have keys: "distinct (map fst ?d)" by (simp add: dict_inv_def)
  have "map (\<lambda>r. r ''ticker'') (load_stocks fs country) = map (Some \<circ> fst) ?d"
    by (simp only: load_stocks_dedup dict_inv_tickers [OF inv])
  moreover have "distinct (map (Some \<circ> fst) ?d)"
    using keys by (simp add: distinct_map inj_on_def)
  moreover have "\<forall>r \<in> set (load_stocks fs country). py_truthy (r ''ticker'')"
    using inv by (auto simp: load_stocks_dedup dict_inv_def)
  ultimately show ?thesis by simp
qed

theorem load_stocks_distinct_tickers_witness:
  "load_stocks demo_files ''India'' = india_rows \<and>
   distinct (map (\<lambda>r. r ''ticker'') india_rows) \<and> list_all (\<lambda>r. py_truthy (r ''ticker'')) india_rows"
proof -
  have h: "load_stocks demo_files ''India'' = india_rows"
    by (simp add: load_stocks_def stock_sources_def stock_country_key_def load_csv_def
                  dedup_step_def demo_defs py_str_simps)
  from h load_stocks_distinct_tickers [of demo_files "''India''"] show ?thesis
    by (simp add: list_all_iff)
qed

text \<open>
  C20. Last write wins: the row \<open>load_stocks\<close> returns for a ticker is the last row
  with that ticker in the old-then-new source order, and there is none for the empty
  ticker, as the specification's ordered map keyed by ticker promises.
\<close>

theorem load_stocks_last_wins:
  "find (\<lambda>r. r ''ticker'' = Some t) (load_stocks fs country) =
     (if t = [] then None
      else find (\<lambda>r. r ''ticker'' = Some t) (rev (stock_sources fs (stock_country_key country))))"
proof -
  let ?rs = "stock_sources fs (stock_country_key country)"
  have inv: "dict_inv (dedup_by_ticker [] ?rs)" by (rule dict_inv_dedup) simp
  have "find (\<lambda>r. r ''ticker'' = Some t) (load_stocks fs country) = map_of (dedup_by_ticker [] ?rs) t"
    by (simp add: load_stocks_dedup find_ticker_dict [OF inv])
  also have "\<dots> = fold (\<lambda>r m. ticker_map_step m r) ?rs Map.empty t"
    by (simp add: map_of_dedup)
  also have "\<dots> = (if t = [] then None else find (\<lambda>r. r ''ticker'' = Some t) (rev ?rs))"
    by (simp add: fold_ticker_map_step split: option.splits)
  finally show ?thesis .
qed

text \<open>
  C21. Order of the result: the tickers of \<open>load_stocks\<close> are the distinct non-empty
  tickers of the sources in the order of their first occurrence (Python's dict keeps
  a key where it was first inserted).
\<close>

theorem load_stocks_order:
  "map (\<lambda>r. r ''ticker'') (load_stocks fs country) =
     map Some (rev (remdups (rev (new_tickers (stock_sources fs (stock_country_key country))))))"
proof -
  let ?d = "dedup_by_ticker [] (stock_sources fs (stock_country_key country))"
  have inv: "dict_inv ?d" by (rule dict_inv_dedup) simp
  have keys: "map fst ?d = rev (remdups (rev (new_tickers (stock_sources fs (stock_country_key country)))))"
    using keys_dedup [of "[]"] by simp
  have "map (\<lambda>r. r ''ticker'') (load_stocks fs country) = map (Some \<circ> fst) ?d"
    by (simp only: load_stocks_dedup dict_inv_tickers [OF inv])
  also have "\<dots> = map Some (map fst ?d)" by simp
  finally show ?thesis by (simp only: keys)
qed

text \<open>
  C22. The source tree's index loader concatenates its three files in order and
  raises \<open>FileNotFoundError\<close> for the first one missing, whereas the package
  build's loaders read a missing file as no rows.
\<close>

theorem load_indices_all_result:
  "load_indices_all fs =
     (case fs ''data/indices_india.csv'' of
        None \<Rightarrow> Inl (FileNotFoundError ''data/indices_india.csv'')
      | Some a \<Rightarrow> (case fs ''data/indices_usa.csv'' of
          None \<Rightarrow> Inl (FileNotFoundError ''data/indices_usa.csv'')
        | Some b \<Rightarrow> (case fs ''data/indices_global.csv'' of
            None \<Rightarrow> Inl (FileNotFoundError ''data/indices_global.csv'')
          | Some c \<Rightarrow> Inr (a @ b @ c)))) \<and>
   load_indices fs = (case fs ''data/indices/indices.csv'' of None \<Rightarrow> [] | Some rows \<Rightarrow> rows)"
  by (simp add: load_indices_all_def load_csv_strict_def load_indices_def load_csv_def
           split: option.splits)

end
