(* ===== verification/Resolver.thy ===== *)
theory Resolver
  imports Matcher Loaders Examples
begin

text \<open>
  The Resolver of \<open>src/build/lib/market_tickers/core.py\<close>: the alias table
  \<^term>\<open>INDEX_ALIASES\<close>, \<^term>\<open>get_ticker\<close> (input check, the two shortcuts, the
  category dispatch through the loaders, then the cascade \<^term>\<open>match_rows\<close>),
  \<^term>\<open>get_default_index\<close> (the static country table). The data files are an
  argument of every operation: the code reads them at each call and never writes
  them, so nothing else is state. The lemmas give the result of \<^term>\<open>get_ticker\<close>
  on each branch, where its results come from, the round trip of the currency
  shortcut, and the places where it departs from the specification.
\<close>

section \<open>Definitions\<close>

definition INDEX_ALIASES :: "(string \<times> string) list" where
  "INDEX_ALIASES =
     [(''nifty'', ''^NSEI''), (''nifty50'', ''^NSEI''), (''niftyfifty'', ''^NSEI''),
      (''sensex'', ''^BSESN''), (''bse'', ''^BSESN''),
      (''sp500'', ''^GSPC''), (''sandp500'', ''^GSPC''), (''s&p500'', ''^GSPC''),
      (''dow'', ''^DJI''), (''dowjones'', ''^DJI''),
      (''nasdaq'', ''^IXIC'')]"

text \<open>\<open>country or "india"\<close>: \<open>None\<close> and the empty string fall back.\<close>

definition stock_country :: "string option \<Rightarrow> string" where
  "stock_country country = (case country of None \<Rightarrow> ''india'' | Some c \<Rightarrow> if c = [] then ''india'' else c)"

text \<open>The \<open>if/elif\<close> chain that picks the rows of a category.\<close>

definition load_category :: "data_files \<Rightarrow> string \<Rightarrow> string option \<Rightarrow> py_error + row list" where
  "load_category fs category country =
     (if category = ''index'' then Inr (load_indices fs)
      else if category = ''etf'' then Inr (load_etfs fs)
      else if category = ''currency'' then Inr (load_currencies fs)
      else if category = ''stock'' then Inr (load_stocks fs (stock_country country))
      else Inl (ValueError (''Unknown category: '' @ category)))"

text \<open>The currency-pair shortcut: six letters, returned as \<open>XXXXXX=X\<close>.\<close>

definition is_fx_code :: "string \<Rightarrow> bool" where
  "is_fx_code norm_name \<longleftrightarrow> length norm_name = 6 \<and> py_isalpha norm_name"

definition fx_ticker :: "string \<Rightarrow> string" where
  "fx_ticker norm_name = py_upper norm_name @ ''=X''"

text \<open>The query key: the stripped name without \<open>=x\<close>, normalized.\<close>

definition query_key :: "string \<Rightarrow> string" where
  "query_key name = strict_normalize (py_replace ''=x'' '''' (py_strip name))"

text \<open>\<open>if category is None: category = "stock"\<close>.\<close>

definition category_default :: "string option \<Rightarrow> string" where
  "category_default category = (case category of None \<Rightarrow> ''stock'' | Some c \<Rightarrow> c)"

definition get_ticker ::
  "data_files \<Rightarrow> string \<Rightarrow> string option \<Rightarrow> string option \<Rightarrow> py_error + string" where
  "get_ticker fs name country category =
     (if name = [] then Inl (ValueError ''name must be a non-empty string'')
      else
      let raw_name = py_strip name;
          norm_name = strict_normalize (py_replace ''=x'' '''' raw_name)
      in case map_of INDEX_ALIASES norm_name of
           Some t \<Rightarrow> Inr t
         | None \<Rightarrow>
           if is_fx_code norm_name then Inr (fx_ticker norm_name)
           else
           let country = map_option py_lower country
           in err_bind (load_category fs (category_default category) country)
                (\<lambda>rows. match_rows raw_name norm_name country (valid_rows rows)))"

text \<open>The inputs that get past the input check and both shortcuts to the data.\<close>

definition reaches_dataset :: "string \<Rightarrow> bool" where
  "reaches_dataset name \<longleftrightarrow>
     name \<noteq> [] \<and> map_of INDEX_ALIASES (query_key name) = None \<and> \<not> is_fx_code (query_key name)"

definition get_default_index :: "string \<Rightarrow> string \<Rightarrow> py_error + string" where
  "get_default_index stock_name country =
     (if py_lower country = ''india'' then Inr ''^NSEI''
      else if py_lower country \<in> set [''us'', ''usa'', ''united_states''] then Inr ''^GSPC''
      else Inl (ValueError (''No default index defined for country: '' @ country)))"

section \<open>Lemmas\<close>

lemmas resolver_eval = load_category_def category_default_def stock_country_def load_stocks_def
  stock_country_key_def stock_sources_def load_csv_def load_indices_def load_etfs_def
  load_currencies_def dedup_step_def valid_rows_def match_defs query_key_def

lemma get_ticker_unfold:
  "name \<noteq> [] \<Longrightarrow>
   get_ticker fs name c k =
     (case map_of INDEX_ALIASES (query_key name) of
        Some t \<Rightarrow> Inr t
      | None \<Rightarrow>
        if is_fx_code (query_key name) then Inr (fx_ticker (query_key name))
        else err_bind (load_category fs (category_default k) (map_option py_lower c))
               (\<lambda>rows. match_rows (py_strip name) (query_key name) (map_option py_lower c)
                         (valid_rows rows)))"
  unfolding get_ticker_def query_key_def Let_def by simp

lemma get_ticker_dataset:
  "reaches_dataset name \<Longrightarrow>
   load_category fs (category_default k) (map_option py_lower c) = Inr rows \<Longrightarrow>
   get_ticker fs name c k =
     match_rows (py_strip name) (query_key name) (map_option py_lower c) (valid_rows rows)"
  by (simp add: get_ticker_unfold reaches_dataset_def)

lemma reaches_dataset_Nil_key:
  "name \<noteq> [] \<Longrightarrow> query_key name = [] \<Longrightarrow> reaches_dataset name"
  by (simp add: reaches_dataset_def INDEX_ALIASES_def is_fx_code_def)

lemma starts_matches_Nil [simp]: "starts_matches [] V = V"
  by (simp add: starts_matches_def)

lemma contains_matches_Nil [simp]: "contains_matches [] V = V"
  by (simp add: contains_matches_def)

lemma lower_ascii_fixed: "py_islower_ascii c \<Longrightarrow> py_lower_char c = c"
  by (auto simp: py_islower_ascii_def py_lower_char_def py_isupper_char_def Let_def)

lemma lower_ascii_norm: "py_islower_ascii c \<Longrightarrow> is_norm_char c"
  by (simp add: py_islower_ascii_def is_norm_char_def Let_def)

lemma strict_normalize_lower_ascii: "list_all py_islower_ascii n \<Longrightarrow> strict_normalize n = n"
proof (rule strict_normalize_fixpoint)
  assume "list_all py_islower_ascii n"
  then show "list_all is_norm_char n" by (induction n) (simp_all add: lower_ascii_norm)
qed

lemma lower_ascii_alpha: "py_islower_ascii c \<Longrightarrow> py_isalpha_char c"
  by (simp add: py_islower_ascii_def py_isalpha_char_def Let_def)

lemma lower_ascii_not_space: "py_islower_ascii c \<Longrightarrow> \<not> py_isspace_char c"
  by (simp add: py_islower_ascii_def py_isspace_char_def Let_def)

lemma upper_ascii_not_eq: "py_islower_ascii c \<Longrightarrow> py_upper_char c \<noteq> CHR ''=''"
proof
  assume low: "py_islower_ascii c" and eq: "py_upper_char c = CHR ''=''"
  then have v: "(of_char (py_upper_char c) :: nat) = 61" by simp
  from low have n: "97 \<le> (of_char c :: nat)" "(of_char c :: nat) \<le> 122"
    by (simp_all add: py_islower_ascii_def Let_def)
  then have "(of_char (py_upper_char c) :: nat) = of_char c - 32"
    using low by (simp add: py_upper_char_def)
  with n v show False by arith
qed

lemma py_lower_ascii_id: "list_all py_islower_ascii n \<Longrightarrow> py_lower n = n"
  by (induction n) (simp_all add: py_lower_def lower_ascii_fixed)

lemma py_lower_fx_ticker:
  "list_all py_islower_ascii n \<Longrightarrow> py_lower (fx_ticker n) = n @ ''=x''"
proof -
  assume "list_all py_islower_ascii n"
  then have "py_lower (py_upper n) = n" by (simp add: py_lower_ascii_id)
  moreover have "py_lower ''=X'' = ''=x''" by (simp add: py_str_simps)
  ultimately show ?thesis by (simp add: fx_ticker_def)
qed

lemma py_replace_eqx_tail:
  "CHR ''='' \<notin> set n \<Longrightarrow> py_replace ''=x'' '''' (n @ ''=x'') = n"
  by (induction n) auto

lemma py_replace_eqx_absent:
  "CHR ''='' \<notin> set n \<Longrightarrow> py_replace ''=x'' '''' n = n"
  by (rule py_replace_absent) (auto simp: sublist_def)

lemma py_strip_no_space_ends:
  assumes "s \<noteq> []" "\<not> py_isspace_char (hd s)" "\<not> py_isspace_char (last s)"
  shows "py_strip s = s"
proof -
  have "dropWhile py_isspace_char s = s" using assms(1,2) by (cases s) auto
  moreover have "dropWhile py_isspace_char (rev s) = rev s"
    using assms(1,3) by (cases s rule: rev_cases) auto
  ultimately show ?thesis by (simp add: py_strip_def)
qed

section \<open>Properties of get\_ticker\<close>

text \<open>
  C1. Exact match uniqueness: when a name gets past the shortcuts and exactly one
  valid row of the category matches it exactly (by normalized name or ticker), the
  resolver returns that row's ticker, whatever the other tiers would match.
\<close>

theorem get_ticker_exact_unique:
  assumes "reaches_dataset name"
    and "load_category fs (category_default k) (map_option py_lower c) = Inr rows"
    and "exact_matches (query_key name) (valid_rows rows) = [r]"
  shows "get_ticker fs name c k = Inr (row_str r ''ticker'')"
  using assms by (simp add: get_ticker_dataset match_rows_exact_one)

theorem get_ticker_exact_unique_witness:
  "reaches_dataset ''APPLE INC'' \<and>
   load_category demo_files (category_default None) (map_option py_lower (Some ''US'')) = Inr us_rows \<and>
   exact_matches (query_key ''APPLE INC'') (valid_rows us_rows) = [demo_row ''Apple Inc'' ''AAPL''] \<and>
   get_ticker demo_files ''APPLE INC'' (Some ''US'') None = Inr ''AAPL''"
proof -
  have h1: "reaches_dataset ''APPLE INC''" by code_simp
  have h2: "load_category demo_files (category_default None) (map_option py_lower (Some ''US'')) = Inr us_rows"
    by (simp add: resolver_eval demo_defs py_str_simps)
  have h3: "exact_matches (query_key ''APPLE INC'') (valid_rows us_rows) = [demo_row ''Apple Inc'' ''AAPL'']"
    by (simp add: resolver_eval demo_defs py_str_simps)
  have "row_str (demo_row ''Apple Inc'' ''AAPL'') ''ticker'' = ''AAPL''" by (simp add: py_str_simps demo_defs)
  with get_ticker_exact_unique [OF h1 h2 h3] h1 h2 h3 show ?thesis by simp
qed

text \<open>
  C2. Exact-tier ambiguity is terminal: when several valid rows match exactly and the
  India tie-break does not single one out (no country India, or not exactly one
  \<open>.NS\<close> ticker among them), the resolver raises the ambiguity \<open>KeyError\<close>,
  even where the startswith or contains tier would have matched.
\<close>

theorem get_ticker_exact_ambiguous:
  assumes "reaches_dataset name"
    and "load_category fs (category_default k) (map_option py_lower c) = Inr rows"
    and "1 < length (exact_matches (query_key name) (valid_rows rows))"
    and "map_option py_lower c \<noteq> Some ''india'' \<or>
         length (nse_rows (exact_matches (query_key name) (valid_rows rows))) \<noteq> 1"
  shows "get_ticker fs name c k = Inl (KeyError (ambiguous_msg (py_strip name)))"
  using assms by (auto simp: get_ticker_dataset match_rows_exact_many)

theorem get_ticker_exact_ambiguous_witness:
  "reaches_dataset ''Tata Motors'' \<and>
   load_category demo_files (category_default None) (map_option py_lower None) = Inr india_rows \<and>
   1 < length (exact_matches (query_key ''Tata Motors'') (valid_rows india_rows)) \<and>
   get_ticker demo_files ''Tata Motors'' None None = Inl (KeyError (ambiguous_msg ''Tata Motors''))"
proof -
  have h1: "reaches_dataset ''Tata Motors''" by code_simp
  have h2: "load_category demo_files (category_default None) (map_option py_lower None) = Inr india_rows"
    by (simp add: resolver_eval demo_defs py_str_simps)
  have h3: "1 < length (exact_matches (query_key ''Tata Motors'') (valid_rows india_rows))"
    by (simp add: resolver_eval demo_defs py_str_simps)
  have h4: "map_option py_lower None \<noteq> Some ''india'' \<or>
    length (nse_rows (exact_matches (query_key ''Tata Motors'') (valid_rows india_rows))) \<noteq> 1"
    by simp
  have "py_strip ''Tata Motors'' = ''Tata Motors''" by (simp add: py_str_simps)
  with get_ticker_exact_ambiguous [OF h1 h2 h3 h4] h1 h2 h3 show ?thesis by simp
qed

text \<open>
  C3. India tie-break at the exact tier: with country India (in any letter case), when
  several valid rows match exactly and exactly one of them has a ticker ending in
  \<open>.NS\<close>, the resolver returns that ticker.
\<close>

theorem get_ticker_india_tie_break:
  assumes "reaches_dataset name"
    and "load_category fs (category_default k) (map_option py_lower c) = Inr rows"
    and "1 < length (exact_matches (query_key name) (valid_rows rows))"
    and "map_option py_lower c = Some ''india''"
    and "nse_rows (exact_matches (query_key name) (valid_rows rows)) = [r]"
  shows "get_ticker fs name c k = Inr (row_str r ''ticker'')"
proof -
  have "match_rows (py_strip name) (query_key name) (Some ''india'') (valid_rows rows) =
        Inr (row_str r ''ticker'')"
    using match_rows_exact_many [OF assms(3), of "py_strip name" "Some ''india''"] assms(5)
    by simp
  with get_ticker_dataset [OF assms(1,2)] show ?thesis unfolding assms(4) by simp
qed

theorem get_ticker_india_tie_break_witness:
  "reaches_dataset ''Tata Motors'' \<and>
   load_category demo_files (category_default None) (map_option py_lower (Some ''India'')) = Inr india_rows \<and>
   1 < length (exact_matches (query_key ''Tata Motors'') (valid_rows india_rows)) \<and>
   nse_rows (exact_matches (query_key ''Tata Motors'') (valid_rows india_rows)) =
     [demo_row ''Tata Motors'' ''TATAMOTORS.NS''] \<and>
   get_ticker demo_files ''Tata Motors'' (Some ''India'') None = Inr ''TATAMOTORS.NS''"
proof -
  have h1: "reaches_dataset ''Tata Motors''" by code_simp
  have h2: "load_category demo_files (category_default None) (map_option py_lower (Some ''India'')) = Inr india_rows"
    by (simp add: resolver_eval demo_defs py_str_simps)
  have h3: "1 < length (exact_matches (query_key ''Tata Motors'') (valid_rows india_rows))"
    by (simp add: resolver_eval demo_defs py_str_simps)
  have h4: "map_option py_lower (Some ''India'') = Some ''india''" by (simp add: py_str_simps)
  have h5: "nse_rows (exact_matches (query_key ''Tata Motors'') (valid_rows india_rows)) =
     [demo_row ''Tata Motors'' ''TATAMOTORS.NS'']"
    by (simp add: resolver_eval demo_defs py_str_simps)
  have "row_str (demo_row ''Tata Motors'' ''TATAMOTORS.NS'') ''ticker'' = ''TATAMOTORS.NS''"
    by (simp add: py_str_simps demo_defs)
  with get_ticker_india_tie_break [OF h1 h2 h3 h4 h5] h1 h2 h3 h5 show ?thesis by simp
qed

text \<open>
  C4. Startswith ambiguity falls through: when nothing matches exactly and several
  valid rows start with the query, the startswith tier does not decide; the contains
  tier does, with the same rows at least, so the resolver returns the first \<open>.NS\<close>
  contains match for country India and raises the ambiguity \<open>KeyError\<close> otherwise.
\<close>

theorem get_ticker_prefix_falls_through:
  assumes "reaches_dataset name"
    and "load_category fs (category_default k) (map_option py_lower c) = Inr rows"
    and "exact_matches (query_key name) (valid_rows rows) = []"
    and "1 < length (starts_matches (query_key name) (valid_rows rows))"
  shows "get_ticker fs name c k =
    (let contains = contains_matches (query_key name) (valid_rows rows) in
     if map_option py_lower c = Some ''india'' \<and> nse_rows contains \<noteq> []
     then Inr (row_str (hd (nse_rows contains)) ''ticker'')
     else Inl (KeyError (ambiguous_msg (py_strip name))))"
proof -
  let ?q = "query_key name" and ?V = "valid_rows rows"
  have "1 < length (contains_matches ?q ?V)"
    using assms(4) length_starts_le_contains [of ?q ?V] by arith
  with assms show ?thesis by (simp add: get_ticker_dataset match_rows_no_exact Let_def)
qed

theorem get_ticker_prefix_falls_through_witness:
  "reaches_dataset ''Reliance'' \<and>
   load_category demo_files (category_default None) (map_option py_lower (Some ''india'')) = Inr india_rows \<and>
   exact_matches (query_key ''Reliance'') (valid_rows india_rows) = [] \<and>
   1 < length (starts_matches (query_key ''Reliance'') (valid_rows india_rows)) \<and>
   get_ticker demo_files ''Reliance'' (Some ''india'') None = Inr ''RELIANCE.NS''"
proof -
  have h1: "reaches_dataset ''Reliance''" by code_simp
  have h2: "load_category demo_files (category_default None) (map_option py_lower (Some ''india'')) = Inr india_rows"
    by (simp add: resolver_eval demo_defs py_str_simps)
  have h3: "exact_matches (query_key ''Reliance'') (valid_rows india_rows) = []"
    by (simp add: resolver_eval demo_defs py_str_simps)
  have h4: "1 < length (starts_matches (query_key ''Reliance'') (valid_rows india_rows))"
    by (simp add: resolver_eval demo_defs py_str_simps)
  have "(let contains = contains_matches (query_key ''Reliance'') (valid_rows india_rows) in
     if map_option py_lower (Some ''india'') = Some ''india'' \<and> nse_rows contains \<noteq> []
     then Inr (row_str (hd (nse_rows contains)) ''ticker'')
     else Inl (KeyError (ambiguous_msg (py_strip ''Reliance'')))) = Inr ''RELIANCE.NS''"
    by (simp add: resolver_eval demo_defs py_str_simps)
  with get_ticker_prefix_falls_through [OF h1 h2 h3 h4] h1 h2 h3 h4 show ?thesis by simp
qed

text \<open>
  C6. Where a result comes from: every ticker \<open>get_ticker\<close> returns is a value of
  the alias table, a constructed currency ticker \<open>XXXXXX=X\<close> of six letters, or the
  non-empty ticker of a row of the category's loaded data; it never invents one.
\<close>

theorem get_ticker_result_origin:
  assumes "get_ticker fs name c k = Inr t"
  shows "t \<in> snd ` set INDEX_ALIASES \<or> (\<exists>q. is_fx_code q \<and> t = fx_ticker q) \<or>
    (\<exists>rows r. load_category fs (category_default k) (map_option py_lower c) = Inr rows \<and>
              r \<in> set rows \<and> r ''ticker'' = Some t \<and> t \<noteq> [])"
proof (cases "name = []")
  case True
  with assms show ?thesis by (simp add: get_ticker_def)
next
  case False
  note unf = get_ticker_unfold [OF False, of fs c k]
  show ?thesis
  proof (cases "map_of INDEX_ALIASES (query_key name)")
    case (Some t')
    with assms unf have "t = t'" by simp
    with Some have "(query_key name, t) \<in> set INDEX_ALIASES" by (simp add: map_of_SomeD)
    then show ?thesis by force
  next
    case None
    show ?thesis
    proof (cases "is_fx_code (query_key name)")
      case True
      with None assms unf show ?thesis by auto
    next
      case False
      with None assms unf obtain rows where
        ld: "load_category fs (category_default k) (map_option py_lower c) = Inr rows" and
        m: "match_rows (py_strip name) (query_key name) (map_option py_lower c) (valid_rows rows) = Inr t"
        by (auto simp: err_bind_Inr_iff)
      from match_rows_from_rows [OF m] obtain r where
        r: "r \<in> set (valid_rows rows)" "row_str r ''ticker'' = t" by blast
      then have "r \<in> set rows" "r ''ticker'' = Some t" "t \<noteq> []"
        by (auto simp: valid_rows_def)
      with ld show ?thesis by blast
    qed
  qed
qed

theorem get_ticker_result_origin_witness:
  "get_ticker demo_files ''Tata Motors'' (Some ''india'') None = Inr ''TATAMOTORS.NS'' \<and>
   (''TATAMOTORS.NS'' \<in> snd ` set INDEX_ALIASES \<or> (\<exists>q. is_fx_code q \<and> ''TATAMOTORS.NS'' = fx_ticker q) \<or>
    (\<exists>rows r. load_category demo_files (category_default None) (map_option py_lower (Some ''india'')) = Inr rows \<and>
              r \<in> set rows \<and> r ''ticker'' = Some ''TATAMOTORS.NS'' \<and> ''TATAMOTORS.NS'' \<noteq> []))"
proof -
  have h: "get_ticker demo_files ''Tata Motors'' (Some ''india'') None = Inr ''TATAMOTORS.NS''"
    by code_simp
  from h get_ticker_result_origin [OF h] show ?thesis by blast
qed

text \<open>
  C7. The alias shortcut needs no data: a name whose normalized form is a key of
  \<open>INDEX_ALIASES\<close> resolves to its index ticker for any data files (even none),
  any country and any category argument, unknown ones included.
\<close>

theorem get_ticker_alias_shortcut:
  assumes "name \<noteq> []" and "map_of INDEX_ALIASES (query_key name) = Some t"
  shows "get_ticker fs name c k = Inr t"
  using assms by (simp add: get_ticker_unfold)

theorem get_ticker_alias_shortcut_witness:
  "''Nifty 50'' \<noteq> [] \<and> map_of INDEX_ALIASES (query_key ''Nifty 50'') = Some ''^NSEI'' \<and>
   get_ticker Map.empty ''Nifty 50'' None (Some ''bond'') = Inr ''^NSEI''"
proof -
  have h1: "''Nifty 50'' \<noteq> []" by simp
  have h2: "map_of INDEX_ALIASES (query_key ''Nifty 50'') = Some ''^NSEI''" by code_simp
  from get_ticker_alias_shortcut [OF h1 h2] h2 show ?thesis by simp
qed

text \<open>
  C8. The currency shortcut needs no data either: a name that is no alias and whose
  normalized form is six letters resolves to that form upper-cased with \<open>=X\<close>
  appended, for any data files, country and category.
\<close>

theorem get_ticker_fx_shortcut:
  assumes "name \<noteq> []" and "map_of INDEX_ALIASES (query_key name) = None"
    and "is_fx_code (query_key name)"
  shows "get_ticker fs name c k = Inr (py_upper (query_key name) @ ''=X'')"
  using assms by (simp add: get_ticker_unfold fx_ticker_def)

theorem get_ticker_fx_shortcut_witness:
  "map_of INDEX_ALIASES (query_key ''USD/INR'') = None \<and> is_fx_code (query_key ''USD/INR'') \<and>
   get_ticker Map.empty ''USD/INR'' None (Some ''stock'') = Inr ''USDINR=X''"
proof -
  have h1: "''USD/INR'' \<noteq> []" by simp
  have h2: "map_of INDEX_ALIASES (query_key ''USD/INR'') = None" by code_simp
  have h3: "is_fx_code (query_key ''USD/INR'')" by code_simp
  have "py_upper (query_key ''USD/INR'') @ ''=X'' = ''USDINR=X''" by code_simp
  with get_ticker_fx_shortcut [OF h1 h2 h3] h2 h3 show ?thesis by simp
qed

text \<open>
  C9. A name of only spaces or punctuation is not rejected: it passes the non-empty
  check, its query key is empty, every valid row then starts with and contains the
  key, so with country India and at least two rows the resolver returns the first
  \<open>.NS\<close> row of the category instead of raising \<open>ValueError\<close>.
\<close>

theorem get_ticker_blank_name:
  assumes "name \<noteq> []" and "query_key name = []"
    and "load_category fs (category_default k) (map_option py_lower c) = Inr rows"
    and "exact_matches [] (valid_rows rows) = []"
    and "1 < length (valid_rows rows)"
    and "map_option py_lower c = Some ''india''"
    and "nse_rows (valid_rows rows) = r # rs"
  shows "get_ticker fs name c k = Inr (row_str r ''ticker'')"
proof -
  have "reaches_dataset name" using assms(1,2) by (rule reaches_dataset_Nil_key)
  from get_ticker_dataset [OF this assms(3)] assms(2)
  have "get_ticker fs name c k = match_rows (py_strip name) [] (Some ''india'') (valid_rows rows)"
    unfolding assms(6) by simp
  also have "\<dots> = Inr (row_str r ''ticker'')"
    using assms(4,5,7) by (simp add: match_rows_no_exact Let_def)
  finally show ?thesis .
qed

theorem get_ticker_blank_name_witness:
  "query_key ''   '' = [] \<and>
   load_category demo_files (category_default None) (map_option py_lower (Some ''India'')) = Inr india_rows \<and>
   exact_matches [] (valid_rows india_rows) = [] \<and> 1 < length (valid_rows india_rows) \<and>
   get_ticker demo_files ''   '' (Some ''India'') None = Inr ''TATAMOTORS.NS''"
proof -
  have h1: "''   '' \<noteq> []" by simp
  have h2: "query_key ''   '' = []" by code_simp
  have h3: "load_category demo_files (category_default None) (map_option py_lower (Some ''India'')) = Inr india_rows"
    by (simp add: resolver_eval demo_defs py_str_simps)
  have h4: "exact_matches [] (valid_rows india_rows) = []"
    by (simp add: resolver_eval demo_defs py_str_simps)
  have h5: "1 < length (valid_rows india_rows)" by (simp add: resolver_eval demo_defs py_str_simps)
  have h6: "map_option py_lower (Some ''India'') = Some ''india''" by (simp add: py_str_simps)
  have h7: "nse_rows (valid_rows india_rows) =
    demo_row ''Tata Motors'' ''TATAMOTORS.NS'' #
      [demo_row ''Reliance Industries'' ''RELIANCE.NS'', demo_row ''Reliance Power'' ''RPOWER.NS'']"
    by (simp add: resolver_eval demo_defs py_str_simps)
  have "row_str (demo_row ''Tata Motors'' ''TATAMOTORS.NS'') ''ticker'' = ''TATAMOTORS.NS''"
    by (simp add: py_str_simps demo_defs)
  with get_ticker_blank_name [OF h1 h2 h3 h4 h5 h6 h7] h2 h3 h4 h5 show ?thesis by simp
qed

text \<open>
  C10. An unknown category raises \<open>ValueError\<close> naming it, once the name got past
  the shortcuts (the shortcuts themselves ignore the category, see C7 and C8).
\<close>

theorem get_ticker_unknown_category:
  assumes "reaches_dataset name"
    and "category_default k \<notin> {''index'', ''etf'', ''currency'', ''stock''}"
  shows "get_ticker fs name c k = Inl (ValueError (''Unknown category: '' @ category_default k))"
  using assms by (simp add: get_ticker_unfold reaches_dataset_def load_category_def)

theorem get_ticker_unknown_category_witness:
  "reaches_dataset ''Reliance'' \<and>
   get_ticker demo_files ''Reliance'' None (Some ''bond'') = Inl (ValueError ''Unknown category: bond'')"
proof -
  have h1: "reaches_dataset ''Reliance''" by code_simp
  have h2: "category_default (Some ''bond'') \<notin> {''index'', ''etf'', ''currency'', ''stock''}"
    by (simp add: category_default_def)
  from get_ticker_unknown_category [OF h1 h2] h1 show ?thesis by (simp add: category_default_def)
qed

text \<open>
  C11. The default-index lookup is the static country table of the specification:
  the code's chain of tests on the lower-cased country is a lookup of India to
  \<open>^NSEI\<close> and of \<open>us\<close>, \<open>usa\<close>, \<open>united_states\<close> to \<open>^GSPC\<close>, any other
  country raising \<open>ValueError\<close>; the stock name plays no part.
\<close>

theorem get_default_index_table:
  "get_default_index stock_name country =
     (case map_of [(''india'', ''^NSEI''), (''us'', ''^GSPC''), (''usa'', ''^GSPC''),
                   (''united_states'', ''^GSPC'')] (py_lower country) of
        Some t \<Rightarrow> Inr t
      | None \<Rightarrow> Inl (ValueError (''No default index defined for country: '' @ country)))"
  by (simp add: get_default_index_def)

text \<open>
  C12. Round trip of the currency shortcut: feeding back the lower-cased ticker it
  built (\<open>usdinr=x\<close> for \<open>USDINR=X\<close>) resolves to the same ticker, for any data.
\<close>

theorem get_ticker_fx_roundtrip:
  assumes "list_all py_islower_ascii n" and "length n = 6" and "map_of INDEX_ALIASES n = None"
  shows "get_ticker fs (py_lower (fx_ticker n)) c k = Inr (fx_ticker n)"
proof -
  have ne: "n \<noteq> []" using assms(2) by auto
  have noeq: "CHR ''='' \<notin> set n"
  proof
    assume "CHR ''='' \<in> set n"
    with assms(1) have "py_islower_ascii (CHR ''='')" by (simp add: list_all_iff)
    then show False by (simp add: py_islower_ascii_def)
  qed
  have hd: "\<not> py_isspace_char (hd (n @ ''=x''))"
    using ne assms(1) by (cases n) (simp_all add: lower_ascii_not_space)
  have lst: "\<not> py_isspace_char (last (n @ ''=x''))" by (simp add: py_str_simps)
  have strip: "py_strip (n @ ''=x'') = n @ ''=x''"
    by (rule py_strip_no_space_ends [OF _ hd lst]) simp
  have norm: "strict_normalize n = n" using assms(1) by (rule strict_normalize_lower_ascii)
  have key: "query_key (n @ ''=x'') = n"
    by (simp add: query_key_def strip py_replace_eqx_tail [OF noeq] norm)
  have fx: "is_fx_code n"
    using assms(1,2) ne by (auto simp: is_fx_code_def py_isalpha_def list_all_iff lower_ascii_alpha)
  show ?thesis
    using assms(3) fx by (simp add: py_lower_fx_ticker [OF assms(1)] get_ticker_unfold key)
qed

theorem get_ticker_fx_roundtrip_witness:
  "get_ticker Map.empty (py_lower (fx_ticker ''eurusd'')) None None = Inr ''EURUSD=X''"
proof -
  have h1: "list_all py_islower_ascii ''eurusd''" by (simp add: py_str_simps)
  have h2: "length ''eurusd'' = 6" by simp
  have h3: "map_of INDEX_ALIASES ''eurusd'' = None" by (simp add: INDEX_ALIASES_def)
  have "fx_ticker ''eurusd'' = ''EURUSD=X''" by (simp add: fx_ticker_def py_str_simps)
  with get_ticker_fx_roundtrip [OF h1 h2 h3] show ?thesis by simp
qed

lemma py_replace_eqx_upper_tail:
  "CHR ''='' \<notin> set u \<Longrightarrow> py_replace ''=x'' '''' (u @ ''=X'') = u @ ''=X''"
  by (induction u) auto

lemma upper_ascii_not_space: "py_islower_ascii c \<Longrightarrow> \<not> py_isspace_char (py_upper_char c)"
proof -
  assume low: "py_islower_ascii c"
  then have n: "97 \<le> (of_char c :: nat)" "(of_char c :: nat) \<le> 122"
    by (simp_all add: py_islower_ascii_def Let_def)
  then have "(of_char (py_upper_char c) :: nat) = of_char c - 32"
    using low by (simp add: py_upper_char_def)
  with n show ?thesis unfolding py_isspace_char_def Let_def by linarith
qed

text \<open>
  C13. The currency tickers the resolver builds do not resolve back: \<open>XXXXXX=X\<close>
  keeps its upper-case \<open>X\<close>, which the case-sensitive \<open>replace("=x", "")\<close> does
  not remove, so its query key is the seven characters \<open>xxxxxxx\<close> and the currency
  shortcut does not fire on it.
\<close>

theorem fx_ticker_query_key:
  assumes "list_all py_islower_ascii n" and "length n = 6"
  shows "query_key (fx_ticker n) = n @ ''x'' \<and> \<not> is_fx_code (query_key (fx_ticker n))"
proof -
  have ne: "n \<noteq> []" using assms(2) by auto
  have noeq: "CHR ''='' \<notin> set (py_upper n)"
  proof
    assume "CHR ''='' \<in> set (py_upper n)"
    then obtain x where x: "x \<in> set n" "py_upper_char x = CHR ''=''"
      by (auto simp: py_upper_def)
    with assms(1) have "py_islower_ascii x" by (simp add: list_all_iff)
    with x(2) upper_ascii_not_eq show False by blast
  qed
  have hd: "\<not> py_isspace_char (hd (py_upper n @ ''=X''))"
    using ne assms(1) by (cases n) (simp_all add: py_upper_def upper_ascii_not_space)
  have lst: "\<not> py_isspace_char (last (py_upper n @ ''=X''))" by (simp add: py_str_simps)
  have strip: "py_strip (py_upper n @ ''=X'') = py_upper n @ ''=X''"
    by (rule py_strip_no_space_ends [OF _ hd lst]) simp
  have norm: "strict_normalize n = n" using assms(1) by (rule strict_normalize_lower_ascii)
  have tail: "strict_normalize ''=X'' = ''x''" by (simp add: py_str_simps)
  have key: "query_key (fx_ticker n) = n @ ''x''"
    by (simp only: query_key_def fx_ticker_def strip py_replace_eqx_upper_tail [OF noeq]
                   strict_normalize_append strict_normalize_upper norm tail)
  then show ?thesis using assms(2) by (simp add: is_fx_code_def)
qed

theorem fx_ticker_query_key_witness:
  "query_key (fx_ticker ''usdinr'') = ''usdinrx'' \<and> \<not> is_fx_code (query_key (fx_ticker ''usdinr'')) \<and>
   get_ticker Map.empty ''USDINR=X'' None None = Inl (KeyError (not_found_msg ''USDINR=X''))"
proof -
  have h1: "list_all py_islower_ascii ''usdinr''" by (simp add: py_str_simps)
  have h2: "length ''usdinr'' = 6" by simp
  have "get_ticker Map.empty ''USDINR=X'' None None = Inl (KeyError (not_found_msg ''USDINR=X''))"
    by code_simp
  with fx_ticker_query_key [OF h1 h2] show ?thesis by (simp add: is_fx_code_def)
qed

text \<open>
  C14. The alias key \<open>s&p500\<close> is dead: it is in the table, but no name's query key
  (nor its plain normalized form, used by \<open>get\<close>) can contain \<open>&\<close>, which the
  normalizer always deletes.
\<close>

theorem alias_s_and_p_unreachable:
  "(''s&p500'', ''^GSPC'') \<in> set INDEX_ALIASES \<and>
   query_key name \<noteq> ''s&p500'' \<and> strict_normalize name \<noteq> ''s&p500''"
proof -
  have amp: "\<not> list_all is_norm_char ''s&p500''" by (simp add: py_str_simps)
  have "query_key name \<noteq> ''s&p500''"
    using strict_normalize_chars [of "py_replace ''=x'' '''' (py_strip name)"] amp
    by (auto simp: query_key_def)
  moreover have "strict_normalize name \<noteq> ''s&p500''"
    using strict_normalize_chars [of name] amp by auto
  ultimately show ?thesis by (simp add: INDEX_ALIASES_def)
qed

end
