(* ===== verification/Fallback.thy ===== *)
theory Fallback
  imports Resolver
begin

text \<open>
  The smart wrapper \<open>get\<close> of \<open>src/build/lib/market_tickers/core.py\<close> (lines
  152-192): up to four calls of \<^const>\<open>get_ticker\<close>, for the index category when
  the name looks like an index, for the currency category when it looks like a
  currency pair, then for stocks and for ETFs; each call is a \<open>try\<close> block whose
  exception, any exception, is discarded (\<^term>\<open>attempt\<close>), and a final
  \<open>KeyError\<close> when all fail. The lemmas give the priority order and the places
  where it departs from the specification.
\<close>

section \<open>Definitions\<close>

text \<open>One \<open>try\<close> block of \<open>get\<close>, entered when its guard holds: a result is
  returned, any exception passes on to the next block.\<close>

definition attempt :: "bool \<Rightarrow> py_error + string \<Rightarrow> py_error + string \<Rightarrow> py_error + string" where
  "attempt guard r next = (if guard then (case r of Inr t \<Rightarrow> Inr t | Inl _ \<Rightarrow> next) else next)"

definition index_keywords :: "string list" where
  "index_keywords = [''nifty'', ''sensex'', ''dow'', ''nasdaq'', ''sp'']"

definition looks_like_index :: "string \<Rightarrow> bool" where
  "looks_like_index name_norm \<longleftrightarrow>
     map_of INDEX_ALIASES name_norm \<noteq> None \<or> list_ex (\<lambda>k. sublist k name_norm) index_keywords"

definition looks_like_fx :: "string \<Rightarrow> bool" where
  "looks_like_fx name_norm \<longleftrightarrow> length name_norm = 6 \<and> py_isalpha name_norm"

definition get :: "data_files \<Rightarrow> string \<Rightarrow> string option \<Rightarrow> py_error + string" where
  "get fs name country =
     (let name_norm = strict_normalize name in
      attempt (looks_like_index name_norm) (get_ticker fs name None (Some ''index''))
      (attempt (looks_like_fx name_norm) (get_ticker fs name None (Some ''currency''))
      (attempt True (get_ticker fs name country (Some ''stock''))
      (attempt True (get_ticker fs name None (Some ''etf''))
      (Inl (KeyError (''Ticker not found for: '' @ name)))))))"

section \<open>Lemmas\<close>

lemma attempt_simps [simp]:
  "attempt False r next = next"
  "attempt True (Inr t) next = Inr t"
  "attempt True (Inl e) next = next"
  by (simp_all add: attempt_def)

lemma get_plain:
  "\<not> looks_like_index (strict_normalize name) \<Longrightarrow> \<not> looks_like_fx (strict_normalize name) \<Longrightarrow>
   get fs name c =
     attempt True (get_ticker fs name c (Some ''stock''))
       (attempt True (get_ticker fs name None (Some ''etf''))
         (Inl (KeyError (''Ticker not found for: '' @ name))))"
  by (simp add: get_def Let_def)

lemma attempt_True_eq:
  "attempt True r next = (case r of Inr t \<Rightarrow> Inr t | Inl _ \<Rightarrow> next)"
  by (simp add: attempt_def)

section \<open>Properties of get\<close>

text \<open>
  C15. Ambiguity is swallowed by the fallback: for a plain name whose stock lookup
  raises the ambiguity \<open>KeyError\<close>, \<open>get\<close> still returns an ETF ticker whenever
  the ETF lookup finds one, although the specification makes ambiguity terminal and
  never resolved by another category.
\<close>

theorem get_swallows_stock_ambiguity:
  assumes "\<not> looks_like_index (strict_normalize name)"
    and "\<not> looks_like_fx (strict_normalize name)"
    and "get_ticker fs name c (Some ''stock'') = Inl (KeyError (ambiguous_msg (py_strip name)))"
    and "get_ticker fs name None (Some ''etf'') = Inr t"
  shows "get fs name c = Inr t"
  using assms by (simp add: get_plain)

theorem get_swallows_stock_ambiguity_witness:
  "get_ticker demo_files ''Tata Motors'' None (Some ''stock'') =
     Inl (KeyError (ambiguous_msg (py_strip ''Tata Motors''))) \<and>
   get demo_files ''Tata Motors'' None = Inr ''TATAETF.NS''"
proof -
  have h1: "\<not> looks_like_index (strict_normalize ''Tata Motors'')" by code_simp
  have h2: "\<not> looks_like_fx (strict_normalize ''Tata Motors'')" by code_simp
  have h3: "get_ticker demo_files ''Tata Motors'' None (Some ''stock'') =
     Inl (KeyError (ambiguous_msg (py_strip ''Tata Motors'')))" by code_simp
  have h4: "get_ticker demo_files ''Tata Motors'' None (Some ''etf'') = Inr ''TATAETF.NS''"
    by code_simp
  from get_swallows_stock_ambiguity [OF h1 h2 h3 h4] h3 show ?thesis by simp
qed

text \<open>
  Index names first: when the normalized name is an alias or contains one of
  the index keywords and the index lookup succeeds, \<open>get\<close> returns its result
  before any stock is consulted.
\<close>

theorem get_index_first:
  assumes "looks_like_index (strict_normalize name)"
    and "get_ticker fs name None (Some ''index'') = Inr t"
  shows "get fs name c = Inr t"
  using assms by (simp add: get_def Let_def)

theorem get_index_first_witness:
  "looks_like_index (strict_normalize ''Nifty Bank'') \<and>
   get demo_files ''Nifty Bank'' (Some ''india'') = Inr ''^NSEBANK''"
proof -
  have h1: "looks_like_index (strict_normalize ''Nifty Bank'')" by code_simp
  have h2: "get_ticker demo_files ''Nifty Bank'' None (Some ''index'') = Inr ''^NSEBANK''"
    by code_simp
  from get_index_first [OF h1 h2] h1 show ?thesis by simp
qed

text \<open>
  C17. Six-letter names never reach the stocks: a name that is no alias, does not
  look like an index, and normalizes to six letters resolves through the currency
  attempt to a constructed \<open>=X\<close> ticker for any data files, so \<open>get("Nvidia")\<close> is
  \<open>NVIDIA=X\<close> even when the stock file lists Nvidia.
\<close>

theorem get_six_letter_name:
  assumes "name \<noteq> []"
    and "\<not> looks_like_index (strict_normalize name)"
    and "looks_like_fx (strict_normalize name)"
    and "map_of INDEX_ALIASES (query_key name) = None"
    and "is_fx_code (query_key name)"
  shows "get fs name c = Inr (fx_ticker (query_key name))"
proof -
  have "get_ticker fs name None (Some ''currency'') = Inr (fx_ticker (query_key name))"
    using assms(1,4,5) by (simp add: get_ticker_unfold)
  with assms(2,3) show ?thesis by (simp add: get_def Let_def)
qed

theorem get_six_letter_name_witness:
  "\<not> looks_like_index (strict_normalize ''Nvidia'') \<and> looks_like_fx (strict_normalize ''Nvidia'') \<and>
   get (demo_files(''data/stocks/stocks_india.csv'' \<mapsto> [demo_row ''Nvidia'' ''NVDA'']))
       ''Nvidia'' None = Inr ''NVIDIA=X''"
proof -
  have h1: "''Nvidia'' \<noteq> []" by simp
  have h2: "\<not> looks_like_index (strict_normalize ''Nvidia'')" by code_simp
  have h3: "looks_like_fx (strict_normalize ''Nvidia'')" by code_simp
  have h4: "map_of INDEX_ALIASES (query_key ''Nvidia'') = None" by code_simp
  have h5: "is_fx_code (query_key ''Nvidia'')" by code_simp
  have "fx_ticker (query_key ''Nvidia'') = ''NVIDIA=X''" by code_simp
  with get_six_letter_name [OF h1 h2 h3 h4 h5] h2 h3 show ?thesis by simp
qed

text \<open>
  C18. The empty name: \<open>get_ticker\<close> raises \<open>ValueError\<close>, and \<open>get\<close>, which
  discards it at every attempt, raises the final \<open>KeyError\<close>.
\<close>

theorem get_empty_name:
  "get_ticker fs [] c k = Inl (ValueError ''name must be a non-empty string'') \<and>
   get fs [] c = Inl (KeyError ''Ticker not found for: '')"
  by (simp add: get_def get_ticker_def looks_like_index_def looks_like_fx_def
                INDEX_ALIASES_def index_keywords_def py_isalpha_def)

end
