(* ===== verification/Fallback_Spec.thy ===== *)
theory Fallback_Spec
  imports Fallback
begin

text \<open>
  The contract of the smart wrapper \<open>get\<close>, from its docstring in
  \<open>src/build/lib/market_tickers/core.py\<close>: "Priority: 1. Index (only if name looks
  like index) 2. Currency (only if looks like FX code) 3. Stock (DEFAULT and PRIMARY)
  4. ETF (last fallback)". \<^term>\<open>get_plan\<close> is that priority list for a name, as
  (category, country) pairs; \<^term>\<open>first_success\<close> runs a list of lookups and
  keeps the first that returns; \<^term>\<open>get_spec\<close> is the contract. The lemmas show
  that the code's chain of \<open>try\<close> blocks computes exactly the contract, and that the
  only exception \<open>get\<close> ever raises is its final \<open>KeyError\<close>.
\<close>

section \<open>Definitions\<close>

definition get_plan :: "string \<Rightarrow> string option \<Rightarrow> (string \<times> string option) list" where
  "get_plan name country =
     (let n = strict_normalize name in
      (if looks_like_index n then [(''index'', None)] else []) @
      (if looks_like_fx n then [(''currency'', None)] else []) @
      [(''stock'', country), (''etf'', None)])"

fun first_success :: "(py_error + string) list \<Rightarrow> py_error + string \<Rightarrow> py_error + string" where
  "first_success [] d = d"
| "first_success (Inr t # rs) d = Inr t"
| "first_success (Inl e # rs) d = first_success rs d"

definition get_spec :: "data_files \<Rightarrow> string \<Rightarrow> string option \<Rightarrow> py_error + string" where
  "get_spec fs name country =
     first_success (map (\<lambda>(k, c). get_ticker fs name c (Some k)) (get_plan name country))
       (Inl (KeyError (''Ticker not found for: '' @ name)))"

section \<open>Lemmas\<close>

lemma attempt_first_success:
  "attempt True r (first_success rs d) = first_success (r # rs) d"
  by (cases r) simp_all

lemma attempt_Inl: "attempt g r next = Inl e \<Longrightarrow> next = Inl e"
  by (auto simp: attempt_def split: if_splits sum.splits)

lemma length_get_plan: "2 \<le> length (get_plan name c) \<and> length (get_plan name c) \<le> 4"
  by (simp add: get_plan_def Let_def)

section \<open>Properties of get against its contract\<close>

text \<open>
  C28. Refinement: the code's chain of guarded \<open>try\<close> blocks computes exactly the
  docstring's contract, the first successful lookup along the priority list of the
  name (index if it looks like one, currency if it looks like one, then stock with
  the caller's country, then ETF), else the final \<open>KeyError\<close>.
\<close>

theorem get_refines_spec: "get fs name c = get_spec fs name c"
  unfolding get_def get_spec_def get_plan_def Let_def
  by (simp add: attempt_first_success [symmetric])

text \<open>
  C29. Error behaviour: whatever the lookups raise (\<open>ValueError\<close> for an empty
  name, the ambiguity or not-found \<open>KeyError\<close>, a missing category), \<open>get\<close>
  discards it; the only error \<open>get\<close> returns is \<open>KeyError("Ticker not found for:
  <name>")\<close>.
\<close>

theorem get_error_not_found:
  assumes "get fs name c = Inl e"
  shows "e = KeyError (''Ticker not found for: '' @ name)"
  using assms unfolding get_def Let_def by (auto dest!: attempt_Inl)

theorem get_error_not_found_witness:
  "get demo_files ''Zzz'' None = Inl (KeyError (''Ticker not found for: '' @ ''Zzz''))"
proof -
  have h: "get demo_files ''Zzz'' None = Inl (KeyError ''Ticker not found for: Zzz'')" by code_simp
  from get_error_not_found [OF h] h show ?thesis by simp
qed
end
