(* ===== verification/Legacy.thy ===== *)
theory Legacy
  imports Loaders Normalize
begin

text \<open>
  The exact-only resolver of the source tree, \<open>src/market_tickers/core.py\<close>. At
  import the module loads the India stocks, the US stocks and the indices once
  (\<^term>\<open>legacy_init\<close>: the state \<open>legacy_db\<close>, or the
  \<open>FileNotFoundError\<close> that aborts the import); afterwards every call reads that
  state and never changes it. \<^term>\<open>get_ticker_exact\<close> scans the indices, then the
  India stocks (building \<open>SYMBOL.NS\<close> or \<open>SYMBOL.BO\<close> from the exchange), then the
  US stocks, for a row whose leniently normalized name equals the query's;
  \<^term>\<open>get_default_index_legacy\<close> finds the stock and resolves its
  \<open>default_index\<close> column through \<^term>\<open>get_ticker_exact\<close>. Every scan is
  \<^term>\<open>scan_exact\<close>, the code's \<open>for row in rows: if ...: return\<close> loop, in which
  a row without a \<open>name\<close> raises.
\<close>

section \<open>Definitions\<close>

record legacy_db =
  india_stocks :: "row list"
  usa_stocks :: "row list"
  indices :: "row list"

definition legacy_init :: "data_files \<Rightarrow> py_error + legacy_db" where
  "legacy_init fs =
     err_bind (load_india_stocks fs) (\<lambda>india.
     err_bind (load_usa_stocks fs) (\<lambda>usa.
     err_bind (load_indices_all fs) (\<lambda>idx.
     Inr \<lparr>india_stocks = india, usa_stocks = usa, indices = idx\<rparr>)))"

definition build_india_ticker :: "string \<Rightarrow> string \<Rightarrow> string" where
  "build_india_ticker symbol exchange =
     (if exchange = ''NSE'' then symbol @ ''.NS'' else symbol @ ''.BO'')"

fun scan_exact :: "string \<Rightarrow> row list \<Rightarrow> py_error + row option" where
  "scan_exact norm [] = Inr None"
| "scan_exact norm (r # rs) =
     err_bind (row_index r ''name'') (\<lambda>n.
       if lenient_normalize n = norm then Inr (Some r) else scan_exact norm rs)"

definition get_ticker_exact :: "legacy_db \<Rightarrow> string \<Rightarrow> py_error + string" where
  "get_ticker_exact db name =
     (let norm = lenient_normalize name in
      err_bind (scan_exact norm (indices db)) (\<lambda>hit. case hit of
        Some r \<Rightarrow> row_index r ''ticker''
      | None \<Rightarrow>
      err_bind (scan_exact norm (india_stocks db)) (\<lambda>hit. case hit of
        Some r \<Rightarrow> err_bind (row_index r ''symbol'') (\<lambda>symbol.
                  err_bind (row_index r ''exchange'') (\<lambda>exchange.
                  Inr (build_india_ticker symbol exchange)))
      | None \<Rightarrow>
      err_bind (scan_exact norm (usa_stocks db)) (\<lambda>hit. case hit of
        Some r \<Rightarrow> row_index r ''symbol''
      | None \<Rightarrow> Inl (ValueError (''Ticker not found for: '' @ name))))))"

definition get_default_index_legacy :: "legacy_db \<Rightarrow> string \<Rightarrow> py_error + string" where
  "get_default_index_legacy db stock_name =
     (let norm = lenient_normalize stock_name in
      err_bind (scan_exact norm (india_stocks db @ usa_stocks db)) (\<lambda>hit. case hit of
        Some r \<Rightarrow> err_bind (row_index r ''default_index'') (\<lambda>index_name.
                  get_ticker_exact db index_name)
      | None \<Rightarrow> Inl (ValueError (''No default index found for: '' @ stock_name))))"

text \<open>The contract of a scan: the first row whose name matches, rows all named.\<close>

definition name_matches :: "string \<Rightarrow> row \<Rightarrow> bool" where
  "name_matches norm r \<longleftrightarrow> lenient_normalize (row_str r ''name'') = norm"

definition all_named :: "row list \<Rightarrow> bool" where
  "all_named rs \<longleftrightarrow> list_all (\<lambda>r. r ''name'' \<noteq> None) rs"

text \<open>The state the module builds from the example files of \<open>Examples\<close>.\<close>

definition legacy_demo_db :: legacy_db where
  "legacy_demo_db =
     \<lparr>india_stocks = [legacy_stock ''Tata Motors'' ''TATAMOTORS'' ''NSE'' ''Nifty 50'',
                      legacy_stock ''Tata Motors DVR'' ''TATAMTRDVR'' ''BSE'' ''Sensex''],
      usa_stocks = [legacy_stock ''Nvidia'' ''NVDA'' ''NASDAQ'' ''S&P 500''],
      indices = [demo_row ''Nifty 50'' ''^NSEI'', demo_row ''Sensex'' ''^BSESN'',
                 demo_row ''S&P 500'' ''^GSPC'']\<rparr>"

section \<open>Lemmas\<close>

lemma scan_exact_find:
  "all_named rs \<Longrightarrow> scan_exact norm rs = Inr (find (name_matches norm) rs)"
  by (induction rs) (auto simp: all_named_def name_matches_def row_index_def row_str_def)

lemma scan_exact_Some:
  "scan_exact norm rs = Inr (Some r) \<Longrightarrow>
     r \<in> set rs \<and> (\<exists>n. r ''name'' = Some n \<and> lenient_normalize n = norm)"
  by (induction rs) (auto simp: row_index_def split: option.splits if_splits)

lemma all_named_append [simp]: "all_named (xs @ ys) \<longleftrightarrow> all_named xs \<and> all_named ys"
  by (simp add: all_named_def)

lemma get_ticker_exact_unfold:
  "get_ticker_exact db name =
     err_bind (scan_exact (lenient_normalize name) (indices db)) (\<lambda>hit. case hit of
        Some r \<Rightarrow> row_index r ''ticker''
      | None \<Rightarrow>
      err_bind (scan_exact (lenient_normalize name) (india_stocks db)) (\<lambda>hit. case hit of
        Some r \<Rightarrow> err_bind (row_index r ''symbol'') (\<lambda>symbol.
                  err_bind (row_index r ''exchange'') (\<lambda>exchange.
                  Inr (build_india_ticker symbol exchange)))
      | None \<Rightarrow>
      err_bind (scan_exact (lenient_normalize name) (usa_stocks db)) (\<lambda>hit. case hit of
        Some r \<Rightarrow> row_index r ''symbol''
      | None \<Rightarrow> Inl (ValueError (''Ticker not found for: '' @ name)))))"
  unfolding get_ticker_exact_def Let_def by (rule refl)

lemma row_index_Inr: "row_index r k = Inr v \<longleftrightarrow> r k = Some v"
  by (simp add: row_index_def split: option.splits)

lemma legacy_init_demo: "legacy_init legacy_files = Inr legacy_demo_db"
  by (simp add: legacy_init_def load_india_stocks_def load_usa_stocks_def load_indices_all_def
                load_csv_strict_def legacy_files_def legacy_demo_db_def)

lemma legacy_demo_named: "all_named (indices legacy_demo_db @ india_stocks legacy_demo_db @ usa_stocks legacy_demo_db)"
  by (simp add: all_named_def legacy_demo_db_def demo_defs)

text \<open>What a successful scan-then-continue step tells: either a matching row of the
  list produced the result, or no row matched and the continuation did.\<close>

lemma scan_hit:
  assumes "err_bind (scan_exact q rs) (\<lambda>hit. case hit of Some r \<Rightarrow> f r | None \<Rightarrow> g) = Inr t"
  shows "(\<exists>r \<in> set rs. (\<exists>n. r ''name'' = Some n \<and> lenient_normalize n = q) \<and> f r = Inr t) \<or>
         (scan_exact q rs = Inr None \<and> g = Inr t)"
proof (cases "scan_exact q rs")
  case (Inl e)
  with assms show ?thesis by simp
next
  case (Inr hit)
  show ?thesis
  proof (cases hit)
    case None
    with Inr assms show ?thesis by simp
  next
    case (Some r)
    with Inr have "r \<in> set rs \<and> (\<exists>n. r ''name'' = Some n \<and> lenient_normalize n = q)"
      by (auto dest: scan_exact_Some)
    moreover from Inr Some assms have "f r = Inr t" by simp
    ultimately show ?thesis by blast
  qed
qed

section \<open>Properties of the source tree's resolver\<close>

text \<open>
  C25. The source tree's resolver returns only exact matches: a result comes from a
  row whose leniently normalized name is the query's, and it is that index row's
  ticker, the \<open>.NS\<close>/\<open>.BO\<close> ticker built from that India row's symbol and
  exchange, or that US row's symbol.
\<close>

theorem get_ticker_exact_sound:
  assumes "get_ticker_exact db name = Inr t"
  shows "(\<exists>r \<in> set (indices db). (\<exists>n. r ''name'' = Some n \<and> lenient_normalize n = lenient_normalize name)
            \<and> r ''ticker'' = Some t) \<or>
         (\<exists>r \<in> set (india_stocks db). (\<exists>n. r ''name'' = Some n \<and> lenient_normalize n = lenient_normalize name)
            \<and> (\<exists>s e. r ''symbol'' = Some s \<and> r ''exchange'' = Some e \<and> t = build_india_ticker s e)) \<or>
         (\<exists>r \<in> set (usa_stocks db). (\<exists>n. r ''name'' = Some n \<and> lenient_normalize n = lenient_normalize name)
            \<and> r ''symbol'' = Some t)"
proof -
  let ?q = "lenient_normalize name"
  from scan_hit [OF assms [unfolded get_ticker_exact_unfold]]
  consider (idx) "\<exists>r \<in> set (indices db). (\<exists>n. r ''name'' = Some n \<and> lenient_normalize n = ?q)
                    \<and> row_index r ''ticker'' = Inr t"
    | (rest) "err_bind (scan_exact ?q (india_stocks db)) (\<lambda>hit. case hit of
        Some r \<Rightarrow> err_bind (row_index r ''symbol'') (\<lambda>symbol.
                  err_bind (row_index r ''exchange'') (\<lambda>exchange.
                  Inr (build_india_ticker symbol exchange)))
      | None \<Rightarrow>
      err_bind (scan_exact ?q (usa_stocks db)) (\<lambda>hit. case hit of
        Some r \<Rightarrow> row_index r ''symbol''
      | None \<Rightarrow> Inl (ValueError (''Ticker not found for: '' @ name)))) = Inr t"
    by blast
  then show ?thesis
  proof cases
    case idx
    then show ?thesis by (auto simp: row_index_Inr)
  next
    case rest
    from scan_hit [OF rest] show ?thesis
    proof
      assume "\<exists>r \<in> set (india_stocks db). (\<exists>n. r ''name'' = Some n \<and> lenient_normalize n = ?q) \<and>
        err_bind (row_index r ''symbol'') (\<lambda>symbol. err_bind (row_index r ''exchange'')
          (\<lambda>exchange. Inr (build_india_ticker symbol exchange))) = Inr t"
      then show ?thesis by (auto simp: err_bind_Inr_iff row_index_Inr)
    next
      assume "scan_exact ?q (india_stocks db) = Inr None \<and>
        err_bind (scan_exact ?q (usa_stocks db)) (\<lambda>hit. case hit of
          Some r \<Rightarrow> row_index r ''symbol''
        | None \<Rightarrow> Inl (ValueError (''Ticker not found for: '' @ name))) = Inr t"
      then have "\<exists>r \<in> set (usa_stocks db). (\<exists>n. r ''name'' = Some n \<and> lenient_normalize n = ?q) \<and>
          row_index r ''symbol'' = Inr t"
        using scan_hit by fastforce
      then show ?thesis by (auto simp: row_index_Inr)
    qed
  qed
qed

theorem get_ticker_exact_sound_witness:
  "get_ticker_exact legacy_demo_db ''NVIDIA'' = Inr ''NVDA'' \<and>
   (\<exists>r \<in> set (usa_stocks legacy_demo_db). (\<exists>n. r ''name'' = Some n \<and>
      lenient_normalize n = lenient_normalize ''NVIDIA'') \<and> r ''symbol'' = Some ''NVDA'')"
proof -
  have h: "get_ticker_exact legacy_demo_db ''NVIDIA'' = Inr ''NVDA''"
    by (simp add: get_ticker_exact_def legacy_demo_db_def demo_defs py_str_simps)
  have "\<not> (\<exists>r \<in> set (indices legacy_demo_db). r ''ticker'' = Some ''NVDA'')"
    by (simp add: legacy_demo_db_def demo_defs)
  then have n1: "\<not> (\<exists>r \<in> set (indices legacy_demo_db). (\<exists>n. r ''name'' = Some n \<and>
      lenient_normalize n = lenient_normalize ''NVIDIA'') \<and> r ''ticker'' = Some ''NVDA'')"
    by blast
  have "\<not> (\<exists>r \<in> set (india_stocks legacy_demo_db). \<exists>s e. r ''symbol'' = Some s \<and>
      r ''exchange'' = Some e \<and> ''NVDA'' = build_india_ticker s e)"
    by (auto simp: legacy_demo_db_def demo_defs build_india_ticker_def)
  then have n2: "\<not> (\<exists>r \<in> set (india_stocks legacy_demo_db). (\<exists>n. r ''name'' = Some n \<and>
      lenient_normalize n = lenient_normalize ''NVIDIA'') \<and> (\<exists>s e. r ''symbol'' = Some s \<and>
      r ''exchange'' = Some e \<and> ''NVDA'' = build_india_ticker s e))"
    by blast
  have "\<exists>r \<in> set (usa_stocks legacy_demo_db). (\<exists>n. r ''name'' = Some n \<and>
      lenient_normalize n = lenient_normalize ''NVIDIA'') \<and> r ''symbol'' = Some ''NVDA''"
    using get_ticker_exact_sound [OF h] n1 n2 by meson
  with h show ?thesis by (rule conjI)
qed

text \<open>
  C26. The default index of the source tree: a result is the resolution, by the
  same exact-only resolver, of the \<open>default_index\<close> name of a stock row (India
  first, then US) whose name matches the query.
\<close>

theorem get_default_index_legacy_sound:
  assumes "get_default_index_legacy db stock_name = Inr t"
  shows "\<exists>r \<in> set (india_stocks db @ usa_stocks db).
           (\<exists>n. r ''name'' = Some n \<and> lenient_normalize n = lenient_normalize stock_name) \<and>
           (\<exists>index_name. r ''default_index'' = Some index_name \<and>
                         get_ticker_exact db index_name = Inr t)"
proof -
  from scan_hit [OF assms [unfolded get_default_index_legacy_def Let_def]] show ?thesis
    by (auto simp: err_bind_Inr_iff row_index_Inr)
qed

theorem get_default_index_legacy_sound_witness:
  "get_default_index_legacy legacy_demo_db ''Nvidia'' = Inr ''^GSPC'' \<and>
   get_ticker_exact legacy_demo_db ''S&P 500'' = Inr ''^GSPC''"
proof -
  have h: "get_default_index_legacy legacy_demo_db ''Nvidia'' = Inr ''^GSPC''"
    by (simp add: get_default_index_legacy_def legacy_demo_db_def demo_defs
                  get_ticker_exact_def py_str_simps)
  from get_default_index_legacy_sound [OF h] have "\<exists>t. get_ticker_exact legacy_demo_db t = Inr ''^GSPC''"
    by blast
  moreover have "get_ticker_exact legacy_demo_db ''S&P 500'' = Inr ''^GSPC''"
    by (simp add: legacy_demo_db_def demo_defs get_ticker_exact_def py_str_simps)
  ultimately show ?thesis using h by blast
qed

text \<open>
  C27. Importing the source tree's module succeeds exactly when its five data files
  exist, and then its state holds the India rows, the US rows and the three index
  files concatenated in order; a missing file makes the import fail.
\<close>

theorem legacy_init_ok:
  "legacy_init fs = Inr db \<longleftrightarrow>
     (\<exists>i u a b c. fs ''data/india_stocks.csv'' = Some i \<and> fs ''data/usa_stocks.csv'' = Some u \<and>
        fs ''data/indices_india.csv'' = Some a \<and> fs ''data/indices_usa.csv'' = Some b \<and>
        fs ''data/indices_global.csv'' = Some c \<and>
        db = \<lparr>india_stocks = i, usa_stocks = u, indices = a @ b @ c\<rparr>)"
  by (auto simp: legacy_init_def load_india_stocks_def load_usa_stocks_def load_indices_all_def
                 load_csv_strict_def err_bind_Inr_iff split: option.splits)

end
