(* ===== verification/Legacy_Module.thy ===== *)
theory Legacy_Module
  imports Legacy
begin

text \<open>
  The life cycle of the source tree's module \<open>src/market_tickers/core.py\<close>. Its body
  runs once, at the first import (lines 3-26): it imports the loaders and reads the
  India stocks, the US stocks and the indices into module globals. Python caches a
  module that imported successfully, so later imports and every call of
  \<open>get_ticker\<close> or \<open>get_default_index\<close> use those globals and never read the
  files again; a module whose body raised is not cached, so the next import runs
  the body again. A client's call is preceded by its import (\<open>from market_tickers
  import get_ticker\<close>), which is how \<^term>\<open>module_step\<close> treats a call made
  while the module is not loaded.

  The state is \<open>module_state\<close>; one event is a client call together with the
  data files on disk at that moment (they may change between calls);
  \<^term>\<open>module_run\<close> runs a sequence of events. The lemmas show that answers
  after the first successful import ignore later file changes.
\<close>

section \<open>Definitions\<close>

datatype module_state = Unloaded | Loaded legacy_db

datatype module_call = Import | Ticker string | Default_index string

text \<open>\<open>import market_tickers.core\<close>: the cached module, or a fresh run of its body.\<close>

definition ensure_loaded :: "data_files \<Rightarrow> module_state \<Rightarrow> py_error + legacy_db" where
  "ensure_loaded fs st = (case st of Loaded db \<Rightarrow> Inr db | Unloaded \<Rightarrow> legacy_init fs)"

definition call_result :: "legacy_db \<Rightarrow> module_call \<Rightarrow> py_error + string" where
  "call_result db call =
     (case call of
        Import \<Rightarrow> Inr ''''
      | Ticker name \<Rightarrow> get_ticker_exact db name
      | Default_index name \<Rightarrow> get_default_index_legacy db name)"

definition module_step ::
  "data_files \<Rightarrow> module_state \<Rightarrow> module_call \<Rightarrow> module_state \<times> (py_error + string)" where
  "module_step fs st call =
     (case ensure_loaded fs st of
        Inl e \<Rightarrow> (Unloaded, Inl e)
      | Inr db \<Rightarrow> (Loaded db, call_result db call))"

fun module_run ::
  "module_state \<Rightarrow> (data_files \<times> module_call) list \<Rightarrow> module_state \<times> (py_error + string) list" where
  "module_run st [] = (st, [])"
| "module_run st ((fs, call) # evs) =
     (let (st', r) = module_step fs st call;
          (st'', rs) = module_run st' evs
      in (st'', r # rs))"

section \<open>Lemmas\<close>

lemma module_step_Loaded [simp]:
  "module_step fs (Loaded db) call = (Loaded db, call_result db call)"
  by (simp add: module_step_def ensure_loaded_def)

lemma module_step_Unloaded:
  "module_step fs Unloaded call =
     (case legacy_init fs of Inl e \<Rightarrow> (Unloaded, Inl e) | Inr db \<Rightarrow> (Loaded db, call_result db call))"
  by (simp add: module_step_def ensure_loaded_def)

lemma module_run_Loaded:
  "module_run (Loaded db) evs = (Loaded db, map (call_result db \<circ> snd) evs)"
  by (induction evs) auto

section \<open>Properties of the module life cycle\<close>

text \<open>
  C30. Load once: after the first import succeeds with the files then on disk, the
  module stays loaded and every later call, whatever the files are at that time (even
  none), is answered from the lists read at that import.
\<close>

theorem module_run_cached:
  assumes "legacy_init fs0 = Inr db"
  shows "module_run Unloaded ((fs0, call) # evs) =
           (Loaded db, map (call_result db \<circ> snd) ((fs0, call) # evs))"
  using assms by (simp add: module_step_Unloaded module_run_Loaded)

theorem module_run_cached_witness:
  "legacy_init legacy_files = Inr legacy_demo_db \<and>
   module_run Unloaded [(legacy_files, Import), (Map.empty, Ticker ''Nvidia'')] =
     (Loaded legacy_demo_db, [Inr '''', Inr ''NVDA''])"
proof -
  have "get_ticker_exact legacy_demo_db ''Nvidia'' = Inr ''NVDA''"
    by (simp add: get_ticker_exact_def legacy_demo_db_def demo_defs py_str_simps)
  with module_run_cached [OF legacy_init_demo, of Import "[(Map.empty, Ticker ''Nvidia'')]"]
  show ?thesis by (simp add: legacy_init_demo call_result_def)
qed

end
