(* ===== verification/Agreement.thy ===== *)
theory Agreement
  imports Resolver Legacy
begin

text \<open>
  The two packages side by side on the India stocks they both ship. The source
  tree's India rows carry a \<open>symbol\<close> and an \<open>exchange\<close> and its resolver builds
  the ticker (\<^const>\<open>build_india_ticker\<close>); the build's rows carry the ticker
  itself. \<^term>\<open>as_build_row\<close> is the build row that corresponds to a source-tree
  row. On plain names (ASCII letters, digits, spaces and hyphens) the two
  normalizers agree, and then the build's cascade and the source tree's exact scan
  return the same ticker whenever the build's exact tier finds exactly one row,
  by its name.
\<close>

section \<open>Definitions\<close>

definition plain_chars :: string where
  "plain_chars = ''ABCDEFGHIJKLMNOPQRSTUVWXYZabcdefghijklmnopqrstuvwxyz0123456789 -''"

definition plain_char :: "char \<Rightarrow> bool" where
  "plain_char c \<longleftrightarrow> c \<in> set plain_chars"

definition plain_stock :: "row \<Rightarrow> bool" where
  "plain_stock r \<longleftrightarrow>
     (case r ''name'' of
        None \<Rightarrow> False
      | Some n \<Rightarrow> n \<noteq> [] \<and> list_all plain_char n \<and> r ''symbol'' \<noteq> None \<and> r ''exchange'' \<noteq> None)"

definition as_build_row :: "row \<Rightarrow> row" where
  "as_build_row r =
     [''name'' \<mapsto> row_str r ''name'',
      ''ticker'' \<mapsto> build_india_ticker (row_str r ''symbol'') (row_str r ''exchange'')]"

section \<open>Lemmas\<close>

lemma plain_chars_lower:
  "list_all (\<lambda>c. py_lower_char c \<noteq> CHR ''&'' \<and> c \<noteq> CHR ''='' \<and>
     (is_norm_char (py_lower_char c) \<longleftrightarrow> py_lower_char c \<noteq> CHR '' '' \<and> py_lower_char c \<noteq> CHR ''-''))
     plain_chars"
  unfolding plain_chars_def by code_simp

lemma plain_char_lower:
  assumes "plain_char c"
  shows "py_lower_char c \<noteq> CHR ''&''" and "c \<noteq> CHR ''=''"
    and "is_norm_char (py_lower_char c) \<longleftrightarrow> py_lower_char c \<noteq> CHR '' '' \<and> py_lower_char c \<noteq> CHR ''-''"
  using plain_chars_lower assms by (auto simp: plain_char_def list_all_iff)

lemma plain_normalizers_agree:
  assumes "list_all plain_char s"
  shows "lenient_normalize s = strict_normalize s"
proof -
  have amp: "CHR ''&'' \<notin> set (py_lower s)"
  proof
    assume "CHR ''&'' \<in> set (py_lower s)"
    then obtain x where "x \<in> set s" "py_lower_char x = CHR ''&''" by (auto simp: py_lower_def)
    with assms plain_char_lower(1) [of x] show False by (simp add: list_all_iff)
  qed
  have "lenient_normalize s =
          filter (\<lambda>c. c \<noteq> CHR '' '' \<and> c \<noteq> CHR ''-'') (py_lower s)"
    by (simp add: lenient_normalize_eq concat_map_subst_absent [OF amp] conj_commute)
  also have "\<dots> = filter is_norm_char (py_lower s)"
    using assms plain_char_lower(3) by (auto simp: py_lower_def list_all_iff intro!: filter_cong)
  finally show ?thesis by (simp add: strict_normalize_def)
qed

lemma plain_stock_fields:
  assumes "plain_stock r"
  obtains n s e where "r ''name'' = Some n" "n \<noteq> []" "list_all plain_char n"
    "r ''symbol'' = Some s" "r ''exchange'' = Some e"
  using assms by (auto simp: plain_stock_def split: option.splits)

lemma set_py_strip: "set (py_strip s) \<subseteq> set s"
  by (auto simp: py_strip_def dest!: set_dropWhileD)

lemma query_key_plain:
  assumes "list_all plain_char s"
  shows "query_key s = lenient_normalize s"
proof -
  have "CHR ''='' \<notin> set (py_strip s)"
    using assms plain_char_lower(2) set_py_strip by (fastforce simp: list_all_iff)
  then have "query_key s = strict_normalize (py_strip s)"
    by (simp add: query_key_def py_replace_eqx_absent)
  with plain_normalizers_agree [OF assms] show ?thesis by simp
qed

lemma filter_singleton_sub:
  "filter P xs = [y] \<Longrightarrow> (\<And>z. Q z \<Longrightarrow> P z) \<Longrightarrow> Q y \<Longrightarrow> filter Q xs = [y]"
proof -
  assume f: "filter P xs = [y]" and sub: "\<And>z. Q z \<Longrightarrow> P z" and q: "Q y"
  have "filter Q xs = filter Q (filter P xs)"
    by (simp add: filter_filter) (metis sub)
  with f q show ?thesis by simp
qed

lemma find_of_filter_map:
  "(\<And>x. x \<in> set xs \<Longrightarrow> Q x \<longleftrightarrow> P (f x)) \<Longrightarrow> filter P (map f xs) = [y] \<Longrightarrow>
   \<exists>x. find Q xs = Some x \<and> f x = y"
proof (induction xs)
  case Nil
  then show ?case by simp
next
  case (Cons a xs)
  show ?case
  proof (cases "P (f a)")
    case True
    with Cons.prems show ?thesis by auto
  next
    case False
    with Cons.prems have "\<not> Q a" "filter P (map f xs) = [y]" by auto
    with Cons.IH Cons.prems show ?thesis by auto
  qed
qed

section \<open>The two packages agree on plain names\<close>

text \<open>
  C16. Agreement of the two resolvers: for a plain name (ASCII letters, digits,
  spaces, hyphens) that gets past the build's shortcuts and names no index of the
  source tree, when the build's India stock rows are the source tree's India rows
  (plain names, a symbol and an exchange each) in the build's shape and the build's
  exact tier finds exactly one row, by its name, the build's \<open>get_ticker\<close> and the
  source tree's \<open>get_ticker\<close> return the same ticker.
\<close>

theorem resolvers_agree:
  assumes dataset: "reaches_dataset name"
    and load: "load_category fs (category_default k) (map_option py_lower c) =
                 Inr (map as_build_row (india_stocks db))"
    and named: "all_named (indices db @ india_stocks db @ usa_stocks db)"
    and no_index: "find (name_matches (lenient_normalize name)) (indices db) = None"
    and plain: "list_all plain_char name"
    and rows: "list_all plain_stock (india_stocks db)"
    and unique: "exact_matches (query_key name) (valid_rows (map as_build_row (india_stocks db))) = [x]"
    and by_name: "query_key name = strict_normalize (row_str x ''name'')"
  shows "get_ticker fs name c k = get_ticker_exact db name"
proof -
  let ?q = "lenient_normalize name" and ?rs = "india_stocks db"
  have key: "query_key name = ?q" by (rule query_key_plain [OF plain])
  have eqv: "name_matches ?q r \<longleftrightarrow> query_key name = strict_normalize (row_str (as_build_row r) ''name'')"
    if "r \<in> set ?rs" for r
  proof -
    from rows that have "plain_stock r" by (simp add: list_all_iff)
    then obtain n where n: "r ''name'' = Some n" "list_all plain_char n"
      by (rule plain_stock_fields)
    then show ?thesis
      by (auto simp: name_matches_def key as_build_row_def row_str_def plain_normalizers_agree)
  qed
  have "py_truthy (as_build_row r ''name'') \<and> py_truthy (as_build_row r ''ticker'')"
    if "r \<in> set ?rs" for r
  proof -
    from rows that have "plain_stock r" by (simp add: list_all_iff)
    then obtain n where "r ''name'' = Some n" "n \<noteq> []" by (rule plain_stock_fields)
    then show ?thesis by (simp add: as_build_row_def row_str_def build_india_ticker_def)
  qed
  then have valid: "valid_rows (map as_build_row ?rs) = map as_build_row ?rs"
    by (simp add: valid_rows_def)
  have "filter (\<lambda>z. query_key name = strict_normalize (row_str z ''name'')) (map as_build_row ?rs) = [x]"
    by (rule filter_singleton_sub [OF unique [unfolded valid exact_matches_def]]) (simp_all add: by_name)
  from find_of_filter_map [OF eqv this] obtain r0 where
    r0: "find (name_matches ?q) ?rs = Some r0" "as_build_row r0 = x" by blast
  then have "r0 \<in> set ?rs" by (auto simp: find_Some_iff)
  with rows have "plain_stock r0" by (simp add: list_all_iff)
  then obtain s e where se: "r0 ''symbol'' = Some s" "r0 ''exchange'' = Some e"
    by (rule plain_stock_fields)
  from named have n1: "all_named (indices db)" and n2: "all_named ?rs" by simp_all
  have "get_ticker_exact db name = Inr (build_india_ticker s e)"
    unfolding get_ticker_exact_unfold scan_exact_find [OF n1] scan_exact_find [OF n2]
    by (simp add: no_index r0(1) se row_index_def)
  moreover have "get_ticker fs name c k = Inr (row_str x ''ticker'')"
    using get_ticker_dataset [OF dataset load] match_rows_exact_one [OF unique] by simp
  moreover have "row_str x ''ticker'' = build_india_ticker s e"
    using r0(2) se by (auto simp: as_build_row_def row_str_def)
  ultimately show ?thesis by simp
qed

theorem resolvers_agree_witness:
  "get_ticker (Map.empty(''data/stocks/stocks_india.csv'' \<mapsto> map as_build_row (india_stocks legacy_demo_db)))
      ''Tata Motors'' (Some ''India'') None = Inr ''TATAMOTORS.NS'' \<and>
   get_ticker_exact legacy_demo_db ''Tata Motors'' = Inr ''TATAMOTORS.NS''"
proof -
  let ?fs = "Map.empty(''data/stocks/stocks_india.csv'' \<mapsto> map as_build_row (india_stocks legacy_demo_db))"
  let ?x = "as_build_row (legacy_stock ''Tata Motors'' ''TATAMOTORS'' ''NSE'' ''Nifty 50'')"
  have h1: "reaches_dataset ''Tata Motors''" by code_simp
  have h2: "load_category ?fs (category_default None) (map_option py_lower (Some ''India'')) =
              Inr (map as_build_row (india_stocks legacy_demo_db))"
    by (simp add: resolver_eval legacy_demo_db_def demo_defs as_build_row_def build_india_ticker_def
                  py_str_simps)
  have h3: "all_named (indices legacy_demo_db @ india_stocks legacy_demo_db @ usa_stocks legacy_demo_db)"
    by (rule legacy_demo_named)
  have h4: "find (name_matches (lenient_normalize ''Tata Motors'')) (indices legacy_demo_db) = None"
    by (simp add: legacy_demo_db_def demo_defs name_matches_def py_str_simps)
  have h5: "list_all plain_char ''Tata Motors''" by code_simp
  have h6: "list_all plain_stock (india_stocks legacy_demo_db)"
    by (simp add: legacy_demo_db_def demo_defs plain_stock_def plain_char_def plain_chars_def)
  have h7: "exact_matches (query_key ''Tata Motors'') (valid_rows (map as_build_row (india_stocks legacy_demo_db))) = [?x]"
    by (simp add: resolver_eval legacy_demo_db_def demo_defs as_build_row_def build_india_ticker_def
                  py_str_simps)
  have h8: "query_key ''Tata Motors'' = strict_normalize (row_str ?x ''name'')"
    by (simp add: resolver_eval demo_defs as_build_row_def py_str_simps)
  have t: "get_ticker_exact legacy_demo_db ''Tata Motors'' = Inr ''TATAMOTORS.NS''"
    by (simp add: get_ticker_exact_def legacy_demo_db_def demo_defs build_india_ticker_def py_str_simps)
  from resolvers_agree [OF h1 h2 h3 h4 h5 h6 h7 h8] t show ?thesis by simp
qed
end
