(* ===== verification/Spec2Isabelle.thy ===== *)
theory Spec2Isabelle
  imports Fallback_Spec Legacy_Module Agreement
begin

text \<open>
  \<^bold>\<open>Verification development of market-tickers.\<close>

  The repository holds two versions of a Python package that turns a human name
  ("Reliance Industries", "nifty bank", "USD/INR") into a Yahoo Finance ticker:

  \<^item> the package build, \<open>src/build/lib/market_tickers/\<close>: \<open>loaders.py\<close> reads the
    bundled CSV files (stocks per country, indices, ETFs, currencies), deduplicating
    stocks by ticker; \<open>core.py\<close> holds the normalizer \<open>_normalize\<close>, the alias
    table \<open>INDEX_ALIASES\<close>, the cascade resolver \<open>get_ticker\<close> (input check, alias
    and currency shortcuts, then exact, prefix and substring tiers over the rows of
    one category, with the India \<open>.NS\<close> tie-break), the per-country
    \<open>get_default_index\<close>, and the wrapper \<open>get\<close> that tries index, currency,
    stock and ETF in turn;
  \<^item> the source tree, \<open>src/market_tickers/\<close>: loaders that raise on a missing file,
    a module that loads India stocks, US stocks and indices at import, an exact-only
    resolver \<open>get_ticker\<close> with a lenient \<open>_normalize\<close>, and a
    \<open>get_default_index\<close> that resolves the stock's \<open>default_index\<close> column;
  \<^item> \<open>src/unnamed/part_000\<close>, a demo script calling \<open>get_ticker("Nvidia")\<close> and
    \<open>get_default_index("Nvidia")\<close> before a yfinance download.

  \<^bold>\<open>Theories.\<close>

  \<^item> \<open>Prelude\<close>: the Python value model. Strings are \<^typ>\<open>string\<close> over Latin-1;
    \<^const>\<open>py_lower\<close>, \<^const>\<open>py_isalpha\<close>, \<^const>\<open>py_isspace_char\<close> and
    \<^const>\<open>py_strip\<close> follow CPython on code points 0 to 255 (\<^const>\<open>py_upper\<close>
    on ASCII only, see below); \<^const>\<open>py_replace\<close>
    is \<open>str.replace\<close> (terminating by a length measure, so no fuel is needed);
    a CSV row is a map from column to cell (\<^typ>\<open>row\<close>), the bundled files a map
    from path to rows (\<^typ>\<open>data_files\<close>); errors are \<^typ>\<open>py_error\<close>
    values in a sum type sequenced by \<^const>\<open>err_bind\<close>.
  \<^item> \<open>Normalize\<close>: the two \<open>_normalize\<close> functions, \<^const>\<open>strict_normalize\<close>
    (build, \<open>core.py\<close> 16-18) and \<^const>\<open>lenient_normalize\<close> (source tree,
    \<open>core.py\<close> 10-16); insensitivity to case and surrounding blanks, and how
    the two policies relate.
  \<^item> \<open>Examples\<close>: small data sets in the shape of the bundled CSV files, used by
    the witnesses.
  \<^item> \<open>Loaders\<close>: both \<open>loaders.py\<close>. \<^const>\<open>load_stocks\<close> is the build loader
    with its dict, an association list updated by \<^const>\<open>AList.update\<close> (a
    Python dict keeps a key's first position); the lemmas show the result has
    distinct non-empty tickers, the last row of a ticker wins, and tickers come
    in order of first appearance. \<^const>\<open>load_indices_all\<close> is the strict
    loader of the source tree.
  \<^item> \<open>Matcher\<close>: the three match tiers of the build's \<open>get_ticker\<close>
    (\<^const>\<open>match_rows\<close>, lines 83-133) and an abstract tier specification
    (\<^const>\<open>spec_match\<close>, \<^const>\<open>run_tiers\<close>, \<^const>\<open>report\<close>) over
    \<^typ>\<open>ticker_record\<close>s, with the refinement theorem between them.
  \<^item> \<open>Resolver\<close>: the build's \<^const>\<open>get_ticker\<close> and
    \<^const>\<open>get_default_index\<close>; the behaviour of every branch (errors
    included), the shortcuts, and where every result comes from.
  \<^item> \<open>Fallback\<close>: the wrapper \<^const>\<open>get\<close>, each guarded attempt being
    \<^const>\<open>attempt\<close> (\<open>try: return ... except Exception: pass\<close>).
  \<^item> \<open>Fallback_Spec\<close>: the contract of \<open>get\<close> from its docstring, the priority
    list \<^const>\<open>get_plan\<close> run by \<^const>\<open>first_success\<close>
    (\<^const>\<open>get_spec\<close>); \<open>get\<close> refines it exactly, and its only error is the
    final \<open>KeyError\<close>.
  \<^item> \<open>Legacy\<close>: the source tree. Its module state is the record
    \<^typ>\<open>legacy_db\<close>, built once by \<^const>\<open>legacy_init\<close> and only read
    afterwards; \<^const>\<open>scan_exact\<close> is its \<open>for row in rows\<close> loop;
    \<^const>\<open>get_ticker_exact\<close> and \<^const>\<open>get_default_index_legacy\<close> are
    its two functions.
  \<^item> \<open>Legacy_Module\<close>: the source tree's module as a state machine. A state is
    \<^const>\<open>Unloaded\<close> or \<^const>\<open>Loaded\<close> with the cached lists; a step
    (\<^const>\<open>module_step\<close>) is one client call with the data files on disk at
    that moment, importing first when the module is not loaded (Python caches a
    module that imported and forgets one that raised); runs
    (\<^const>\<open>module_run\<close>) answer from the first successful import whatever
    happens to the files later.
  \<^item> \<open>Agreement\<close>: the two packages side by side. On plain names (ASCII letters,
    digits, spaces, hyphens) the two normalizers coincide; the source tree's India
    rows seen in the build's shape (\<^const>\<open>as_build_row\<close>) make the build's
    cascade and the source tree's exact scan return the same ticker whenever the
    build's exact tier finds one row by its name. Outside that case they part:
    the build also matches tickers, shortcuts six-letter names, and normalizes
    \<open>&\<close> and punctuation differently.
  \<^item> this theory: the demo script run against each package, up to what it prints
    and the download request it sends to yfinance (\<open>download_request\<close>);
    against the source tree it goes through the module's import
    (\<^const>\<open>ensure_loaded\<close>).

  \<^bold>\<open>Not modelled.\<close> CSV parsing and package resources (\<open>csv.DictReader\<close>,
  \<open>importlib.resources\<close>): the files are given already parsed. The yfinance
  download of the demo script and the table it prints (line 16). Arguments that are not strings
  (\<open>None\<close> names, non-string cells), which Python rejects with
  \<open>AttributeError\<close>/\<open>TypeError\<close>: the model takes strings. A missing column is
  \<open>KeyError\<close> in the source tree (\<^const>\<open>row_index\<close>) and \<open>None\<close>, falsy, in the
  build (\<^const>\<open>row_str\<close>, \<open>row.get\<close>). Unicode beyond Latin-1: the
  character model stops at code point 255.

  \<^bold>\<open>Termination.\<close> No fuel is used: every loop of the code runs over a
  finite list (a structural \<^theory_text>\<open>fun\<close>) and \<open>str.replace\<close> is a
  \<^theory_text>\<open>function\<close> whose termination is proved with a length measure.

  \<^bold>\<open>Why \<open>upper\<close> stays ASCII.\<close> On Latin-1, Python's \<open>upper\<close> maps
  U+00DF to the two letters \<open>SS\<close> and U+00B5, U+00FF to code points above
  U+00FF, outside the character model. The code only ever upper-cases a strict key
  (\<open>core.py\<close> line 60), whose characters are ASCII digits and letters, so the
  model is exact wherever the code uses it; no property upper-cases any other input.

  \<^bold>\<open>Scope.\<close> Every function and module body of the four package files is
  modelled, and the demo script up to the request it sends; what the development
  leaves out is library and service behaviour the code only calls: CSV parsing and
  package resources, the yfinance download and the table it returns, and Python's
  rejection of non-string arguments.
\<close>

section \<open>The demo script against both packages\<close>

text \<open>
  The script \<open>src/unnamed/part_000\<close>: \<open>stock = get_ticker("Nvidia")\<close> and
  \<open>index = get_default_index("Nvidia")\<close> (lines 5-6), \<open>print(stock, index)\<close>
  (line 8), then \<open>yf.download([stock, index], start="2022-01-01",
  end="2024-01-01")\<close> (lines 10-14). The model keeps what the script computes and
  sends out: the printed line and the download request; the download and the
  table it returns are the yfinance service's.
\<close>

record download_request =
  dl_tickers :: "string list"
  dl_start :: string
  dl_end :: string

definition demo_output :: "string \<Rightarrow> string \<Rightarrow> string \<times> download_request" where
  "demo_output stock index =
     (stock @ '' '' @ index,
      \<lparr>dl_tickers = [stock, index], dl_start = ''2022-01-01'', dl_end = ''2024-01-01''\<rparr>)"

text \<open>With the package build (its \<open>get_default_index\<close> has \<open>country = "india"\<close> by
  default).\<close>

definition demo_script_build :: "data_files \<Rightarrow> py_error + string \<times> download_request" where
  "demo_script_build fs =
     err_bind (get_ticker fs ''Nvidia'' None None) (\<lambda>stock.
     err_bind (get_default_index ''Nvidia'' ''india'') (\<lambda>index. Inr (demo_output stock index)))"

text \<open>With the source tree: the import runs the module body (\<^const>\<open>ensure_loaded\<close>
  from \<^const>\<open>Unloaded\<close>), then the two calls read the loaded module.\<close>

definition demo_script_legacy :: "data_files \<Rightarrow> py_error + string \<times> download_request" where
  "demo_script_legacy fs =
     err_bind (ensure_loaded fs Unloaded) (\<lambda>db.
     err_bind (call_result db (Ticker ''Nvidia'')) (\<lambda>stock.
     err_bind (call_result db (Default_index ''Nvidia'')) (\<lambda>index. Inr (demo_output stock index))))"

text \<open>
  The demo script gives different answers under the two packages: with the
  build package, whatever its data files, "Nvidia" is six letters and becomes the
  currency ticker \<open>NVIDIA=X\<close> and the default index is the Indian \<open>^NSEI\<close>, so it
  prints \<open>NVIDIA=X ^NSEI\<close> and asks yfinance for those two series; with the source
  tree and its data files it prints \<open>NVDA ^GSPC\<close>, the stock and the index of its
  \<open>default_index\<close> column, and asks for those.
\<close>

theorem demo_script_outcomes:
  "demo_script_build fs =
     Inr (''NVIDIA=X ^NSEI'',
          \<lparr>dl_tickers = [''NVIDIA=X'', ''^NSEI''], dl_start = ''2022-01-01'', dl_end = ''2024-01-01''\<rparr>) \<and>
   demo_script_legacy legacy_files =
     Inr (''NVDA ^GSPC'',
          \<lparr>dl_tickers = [''NVDA'', ''^GSPC''], dl_start = ''2022-01-01'', dl_end = ''2024-01-01''\<rparr>)"
proof
  have k: "map_of INDEX_ALIASES (query_key ''Nvidia'') = None" "is_fx_code (query_key ''Nvidia'')"
    "fx_ticker (query_key ''Nvidia'') = ''NVIDIA=X''" "py_lower ''india'' = ''india''"
    by code_simp+
  then show "demo_script_build fs =
     Inr (''NVIDIA=X ^NSEI'',
          \<lparr>dl_tickers = [''NVIDIA=X'', ''^NSEI''], dl_start = ''2022-01-01'', dl_end = ''2024-01-01''\<rparr>)"
    by (simp add: demo_script_build_def get_ticker_unfold get_default_index_def demo_output_def)
next
  have "get_ticker_exact legacy_demo_db ''Nvidia'' = Inr ''NVDA''"
    by (simp add: get_ticker_exact_def legacy_demo_db_def demo_defs py_str_simps)
  moreover have "get_default_index_legacy legacy_demo_db ''Nvidia'' = Inr ''^GSPC''"
    by (simp add: get_default_index_legacy_def legacy_demo_db_def demo_defs
                  get_ticker_exact_def py_str_simps)
  ultimately show "demo_script_legacy legacy_files =
     Inr (''NVDA ^GSPC'',
          \<lparr>dl_tickers = [''NVDA'', ''^GSPC''], dl_start = ''2022-01-01'', dl_end = ''2024-01-01''\<rparr>)"
    by (simp add: demo_script_legacy_def ensure_loaded_def call_result_def legacy_init_demo
                  demo_output_def)
qed

end
